theory Spec2Isabelle
  imports Main "HOL-Library.AList"
begin

section \<open>JavaScript values\<close>

text \<open>
  The facade in \<^verbatim>\<open>src/index.ts\<close> is TypeScript, whose types are erased at run time:
  items, filter values and key values are arbitrary JavaScript values (\<^verbatim>\<open>unknown\<close>,
  \<^verbatim>\<open>any\<close>, \<^verbatim>\<open>as never\<close>). The type of numbers \<open>'n\<close> is a parameter: the module
  never computes with a number, it only renders one in a template literal, and the rendering
  is supplied by the environment. An object (an item, a filter, an operators map) is a plain
  object, given as the list of its own enumerable properties in the order in which
  \<^verbatim>\<open>Object.keys\<close> reports them; the members it inherits from \<^verbatim>\<open>Object.prototype\<close>
  are the built-ins below.
\<close>

datatype builtin = BFunction string | BObjectPrototype

datatype 'n jsval =
    JUndefined
  | JNull
  | JBool bool
  | JNum 'n
  | JStr string
  | JArr "'n jsval list"
  | JObj "(string \<times> 'n jsval) list"
  | JBuiltin builtin

type_synonym 'n obj = "(string \<times> 'n jsval) list"

fun typeof :: "'n jsval \<Rightarrow> string" where
  "typeof JUndefined = ''undefined''"
| "typeof JNull = ''object''"
| "typeof (JBool b) = ''boolean''"
| "typeof (JNum n) = ''number''"
| "typeof (JStr s) = ''string''"
| "typeof (JArr xs) = ''object''"
| "typeof (JObj ps) = ''object''"
| "typeof (JBuiltin (BFunction f)) = ''function''"
| "typeof (JBuiltin BObjectPrototype) = ''object''"

text \<open>
  Property access \<^verbatim>\<open>o[k]\<close> on a plain object: an own property wins; otherwise the
  lookup continues in \<^verbatim>\<open>Object.prototype\<close>, whose members are functions (and the
  accessor \<^verbatim>\<open>__proto__\<close>, which yields the prototype itself); otherwise the result is
  \<^verbatim>\<open>undefined\<close>.
\<close>

datatype 'a property = Own 'a | Inherited builtin | Absent

definition Object_prototype :: "string \<Rightarrow> builtin option" where
  "Object_prototype k =
     (if k = ''constructor'' then Some (BFunction ''Object'')
      else if k = ''__proto__'' then Some BObjectPrototype
      else if k \<in> set [''hasOwnProperty'', ''isPrototypeOf'', ''propertyIsEnumerable'',
                        ''toLocaleString'', ''toString'', ''valueOf'',
                        ''__defineGetter__'', ''__defineSetter__'',
                        ''__lookupGetter__'', ''__lookupSetter__'']
      then Some (BFunction k)
      else None)"

definition get_property :: "(string \<times> 'a) list \<Rightarrow> string \<Rightarrow> 'a property" where
  "get_property obj k =
     (case map_of obj k of
        Some v \<Rightarrow> Own v
      | None \<Rightarrow> (case Object_prototype k of Some b \<Rightarrow> Inherited b | None \<Rightarrow> Absent))"

fun property_value :: "'n jsval property \<Rightarrow> 'n jsval" where
  "property_value (Own v) = v"
| "property_value (Inherited b) = JBuiltin b"
| "property_value Absent = JUndefined"

definition Object_keys :: "(string \<times> 'a) list \<Rightarrow> string list" where
  "Object_keys obj = map fst obj"

subsection \<open>Template literals and \<^verbatim>\<open>join\<close>\<close>

definition digit :: "nat \<Rightarrow> char" where
  "digit d = ''0123456789'' ! d"

function show_nat :: "nat \<Rightarrow> string" where
  "show_nat n = (if n < 10 then [digit n] else show_nat (n div 10) @ [digit (n mod 10)])"
  by pat_completeness auto
termination
  by (relation "measure id") auto

fun join :: "string \<Rightarrow> string list \<Rightarrow> string" where
  "join sep [] = []"
| "join sep [x] = x"
| "join sep (x # y # ys) = x @ sep @ join sep (y # ys)"

text \<open>
  The text of a built-in in a template literal (\<^verbatim>\<open>Function.prototype.toString\<close>,
  \<^verbatim>\<open>Object.prototype.toString\<close>).
\<close>

fun builtin_text :: "builtin \<Rightarrow> string" where
  "builtin_text (BFunction f) = ''function '' @ f @ ''() { [native code] }''"
| "builtin_text BObjectPrototype = ''[object Object]''"

subsection \<open>Assignment to a property\<close>

text \<open>
  A property name is an array index when it is the decimal rendering, without leading
  zeros, of a number up to 4294967294. The own properties of an object are listed with
  the array indices first, in ascending order, and the other names after them, in the
  order in which they were created.
\<close>

definition digit_value :: "char \<Rightarrow> nat option" where
  "digit_value c = (if c \<in> set ''0123456789'' then Some (of_char c - 48) else None)"

fun parse_nat :: "nat \<Rightarrow> string \<Rightarrow> nat option" where
  "parse_nat acc [] = Some acc"
| "parse_nat acc (c # cs) =
     (case digit_value c of None \<Rightarrow> None | Some d \<Rightarrow> parse_nat (10 * acc + d) cs)"

definition array_index :: "string \<Rightarrow> nat option" where
  "array_index k =
     (case parse_nat 0 k of
        None \<Rightarrow> None
      | Some n \<Rightarrow> if k \<noteq> [] \<and> show_nat n = k \<and> n < 4294967295 then Some n else None)"

fun insert_index :: "nat \<Rightarrow> string \<Rightarrow> 'a \<Rightarrow> (string \<times> 'a) list \<Rightarrow> (string \<times> 'a) list" where
  "insert_index n k v [] = [(k, v)]"
| "insert_index n k v (p # ps) =
     (case array_index (fst p) of
        Some m \<Rightarrow> if m < n then p # insert_index n k v ps else (k, v) # p # ps
      | None \<Rightarrow> (k, v) # p # ps)"

text \<open>
  The assignment \<^verbatim>\<open>o[k] = v\<close> on a plain object. An own property keeps its place and
  takes the new value. Otherwise the name is looked up in \<^verbatim>\<open>Object.prototype\<close>: its
  only accessor, \<^verbatim>\<open>__proto__\<close>, has a setter, which is called (it replaces the prototype
  of \<^verbatim>\<open>o\<close>) and no own property is created; every other inherited member is a writable
  data property, so the assignment creates an own property, as it does for a name that is
  not inherited at all.
\<close>

definition assign_property :: "(string \<times> 'a) list \<Rightarrow> string \<Rightarrow> 'a \<Rightarrow> (string \<times> 'a) list" where
  "assign_property obj k v =
     (case map_of obj k of
        Some old \<Rightarrow> AList.update k v obj
      | None \<Rightarrow>
          if k = ''__proto__'' then obj
          else (case array_index k of
                  Some n \<Rightarrow> insert_index n k v obj
                | None \<Rightarrow> obj @ [(k, v)]))"

section \<open>Requests, responses and the environment\<close>

text \<open>
  An attribute value literal \<^verbatim>\<open>{ S: v }\<close> or \<^verbatim>\<open>{ N: s }\<close> is the object the code
  writes; the payload of \<^verbatim>\<open>S\<close> is whatever value the caller supplied.
\<close>

definition attr_S :: "'n jsval \<Rightarrow> 'n jsval" where
  "attr_S v = JObj [(''S'', v)]"

definition attr_N :: "string \<Rightarrow> 'n jsval" where
  "attr_N s = JObj [(''N'', JStr s)]"

text \<open>
  The parameter object of a command. Every facade function builds a plain object with some
  of these properties; a property that is not set is \<open>None\<close>.
\<close>

record 'n params =
  TableName :: string
  Key :: "'n obj option"
  ReturnValues :: "string option"
  UpdateExpression :: "string option"
  KeyConditionExpression :: "string option"
  FilterExpression :: "string option"
  ExpressionAttributeNames :: "(string \<times> string) list option"
  ExpressionAttributeValues :: "'n obj option"
  Limit :: "'n option"
  ExclusiveStartKey :: "'n obj option"

definition table_params :: "string \<Rightarrow> 'n params" where
  "table_params tableName =
     \<lparr>TableName = tableName, Key = None, ReturnValues = None, UpdateExpression = None,
      KeyConditionExpression = None, FilterExpression = None,
      ExpressionAttributeNames = None, ExpressionAttributeValues = None,
      Limit = None, ExclusiveStartKey = None\<rparr>"

datatype 'n command =
    UpdateItemCommand "'n params"
  | DeleteItemCommand "'n params"
  | QueryCommand "'n params"
  | ScanCommand "'n params"

text \<open>
  The response object of the store. \<^verbatim>\<open>Items\<close> and \<^verbatim>\<open>LastEvaluatedKey\<close> may be
  missing (\<^verbatim>\<open>undefined\<close>); a key that is present is an object, hence truthy.
\<close>

record 'n response =
  Items :: "'n jsval list option"
  LastEvaluatedKey :: "'n obj option"
  Attributes :: "'n obj option"

text \<open>
  Errors: the two kinds this module raises itself (\<^verbatim>\<open>new Error(msg)\<close> and the
  \<^verbatim>\<open>TypeError\<close> of a property read on \<^verbatim>\<open>undefined\<close>), and the errors raised by
  the SDK (by \<^verbatim>\<open>marshall\<close>, \<^verbatim>\<open>unmarshall\<close> or a rejected \<^verbatim>\<open>send\<close>), which
  are objects of their own and are kept apart.
\<close>

datatype error = Error string | TypeError string | SdkError string

text \<open>The configuration a \<^verbatim>\<open>DynamoDBClient\<close> object was constructed with.\<close>

record config =
  region :: "string option"
  credentials :: "(string option \<times> string option) option"

text \<open>
  The environment of the module: the rendering of a number in a template literal, the
  SDK's \<^verbatim>\<open>marshall\<close> (with its \<^verbatim>\<open>removeUndefinedValues\<close> option) and
  \<^verbatim>\<open>unmarshall\<close>, and the backing store, which answers a command sent by a client with
  a given configuration by a response (possibly \<^verbatim>\<open>undefined\<close>) or a rejection, and
  changes its own state.
\<close>

record ('n, 's) env =
  Number_toString :: "'n \<Rightarrow> string"
  marshall :: "bool \<Rightarrow> 'n obj \<Rightarrow> string + 'n obj"
  unmarshall :: "'n jsval \<Rightarrow> string + 'n jsval"
  store :: "'s \<Rightarrow> config \<Rightarrow> 'n command \<Rightarrow> (string + 'n response option) \<times> 's"

text \<open>
  The state of a run: the module variables of \<^verbatim>\<open>dynamodb-client.ts\<close>, the client
  object that \<^verbatim>\<open>ddbDocClient\<close> wraps (each client object is identified with the
  configuration it was constructed with; no client object is ever mutated), the state of
  the store, the requests issued so far with the configuration of the client that sent
  them, and what was written by \<^verbatim>\<open>console.log\<close>.
\<close>

record ('n, 's) world =
  DynamoDB_REGION :: "string option"
  AWS_ACCESS_KEY_ID :: "string option"
  AWS_SECRET_ACCESS_KEY :: "string option"
  ddbClient :: config
  ddbDocClient :: config
  backend :: 's
  requests :: "(config \<times> 'n command) list"
  console :: "error list"

definition lift_sdk :: "string + 'a \<Rightarrow> error + 'a" where
  "lift_sdk r = (case r of Inl m \<Rightarrow> Inl (SdkError m) | Inr x \<Rightarrow> Inr x)"

text \<open>\<^verbatim>\<open>ddbDocClient.send(command)\<close>: the request leaves through the wrapped client.\<close>

definition send :: "('n, 's) env \<Rightarrow> 'n command \<Rightarrow> ('n, 's) world \<Rightarrow>
    (error + 'n response option) \<times> ('n, 's) world" where
  "send E cmd w =
     (let (r, s') = store E (backend w) (ddbDocClient w) cmd
      in (lift_sdk r, w\<lparr>backend := s', requests := requests w @ [(ddbDocClient w, cmd)]\<rparr>))"

section \<open>The operation facade (\<^verbatim>\<open>src/index.ts\<close>)\<close>

subsection \<open>\<^verbatim>\<open>insertOrUpdate\<close>\<close>

text \<open>
  \<^verbatim>\<open>itemKeys\<close> are the keys of the item other than \<^verbatim>\<open>pk\<close> and \<^verbatim>\<open>sk\<close> (no key
  equals an \<^verbatim>\<open>sk\<close> that is \<^verbatim>\<open>undefined\<close>). The two \<^verbatim>\<open>reduce\<close> calls build their
  objects one property at a time, under names that begin with \<^verbatim>\<open>#\<close> or \<^verbatim>\<open>:\<close> and so
  are neither array indices nor inherited. \<^verbatim>\<open>Key\<close> starts as the object literal with the
  one computed property \<^verbatim>\<open>[pk]\<close>, which is always an own property; the sort key is then
  assigned with \<^verbatim>\<open>params.Key[sk] = ...\<close>, last, and only when \<^verbatim>\<open>sk\<close> is truthy, that
  is, a string that is not empty.
\<close>

definition non_key_fields :: "string \<Rightarrow> string option \<Rightarrow> 'n obj \<Rightarrow> string list" where
  "non_key_fields pk sk item = filter (\<lambda>k. k \<noteq> pk \<and> Some k \<noteq> sk) (Object_keys item)"

definition set_expression :: "string list \<Rightarrow> string" where
  "set_expression itemKeys =
     ''SET '' @ join '', ''
       (map (\<lambda>(index, k). ''#field'' @ show_nat index @ '' = :value'' @ show_nat index)
            (enumerate 0 itemKeys))"

definition field_names :: "string list \<Rightarrow> (string \<times> string) list" where
  "field_names itemKeys =
     foldl (\<lambda>accumulator (index, k). AList.update (''#field'' @ show_nat index) k accumulator)
           [] (enumerate 0 itemKeys)"

definition field_values :: "'n obj \<Rightarrow> string list \<Rightarrow> 'n obj" where
  "field_values item itemKeys =
     foldl (\<lambda>accumulator (index, k).
              AList.update ('':value'' @ show_nat index)
                           (property_value (get_property item k)) accumulator)
           [] (enumerate 0 itemKeys)"

definition insertOrUpdate :: "('n, 's) env \<Rightarrow> string \<Rightarrow> string \<Rightarrow> 'n obj \<Rightarrow> string option \<Rightarrow>
    ('n, 's) world \<Rightarrow> (error + 'n response option) \<times> ('n, 's) world" where
  "insertOrUpdate E tableName pk item sk w =
     (let itemKeys = non_key_fields pk sk item in
      if length itemKeys = length (Object_keys item)
      then (Inl (Error ''No partition key is found''), w)
      else
        let params = (table_params tableName)
              \<lparr>Key := Some [(pk, attr_S (property_value (get_property item pk)))],
               ReturnValues := Some ''ALL_NEW''\<rparr>;
            with_update =
              (if length itemKeys > 0
               then (case lift_sdk (marshall E True (field_values item itemKeys)) of
                       Inl e \<Rightarrow> Inl e
                     | Inr vs \<Rightarrow> Inr (params
                         \<lparr>UpdateExpression := Some (set_expression itemKeys),
                          ExpressionAttributeNames := Some (field_names itemKeys),
                          ExpressionAttributeValues := Some vs\<rparr>))
               else Inr params)
        in case with_update of
             Inl e \<Rightarrow> (Inl e, w)
           | Inr params \<Rightarrow>
               let params = (case (sk, Key params) of
                               (Some s, Some key) \<Rightarrow>
                                 if s \<noteq> [] then params
                                   \<lparr>Key := Some (assign_property key s
                                      (attr_S (property_value (get_property item s))))\<rparr>
                                 else params
                             | _ \<Rightarrow> params)
               in send E (UpdateItemCommand params) w)"

subsection \<open>\<^verbatim>\<open>deleteOne\<close>\<close>

definition deleteOne :: "('n, 's) env \<Rightarrow> string \<Rightarrow> string \<Rightarrow> 'n jsval \<Rightarrow>
    ('n, 's) world \<Rightarrow> (error + 'n response option) \<times> ('n, 's) world" where
  "deleteOne E tableName pk pkValue w =
     (let params = (table_params tableName)\<lparr>Key := Some [(pk, attr_S pkValue)]\<rparr>
      in send E (DeleteItemCommand params) w)"

subsection \<open>Queries: \<^verbatim>\<open>findOne\<close>, \<^verbatim>\<open>findMany\<close>\<close>

text \<open>Reading \<^verbatim>\<open>data.Items\<close> when \<^verbatim>\<open>data\<close> is \<^verbatim>\<open>undefined\<close> throws.\<close>

definition read_Items :: "'n response option \<Rightarrow> error + 'n jsval list option" where
  "read_Items data =
     (case data of
        None \<Rightarrow> Inl (TypeError ''Cannot read properties of undefined (reading 'Items')'')
      | Some d \<Rightarrow> Inr (Items d))"

definition query_params :: "string \<Rightarrow> string \<Rightarrow> 'n jsval \<Rightarrow> 'n params" where
  "query_params tableName pk pkValue =
     (table_params tableName)
       \<lparr>KeyConditionExpression := Some (pk @ '' = :u''),
        ExpressionAttributeValues := Some [('':u'', pkValue)]\<rparr>"

definition findOne :: "('n, 's) env \<Rightarrow> string \<Rightarrow> string \<Rightarrow> 'n jsval \<Rightarrow>
    ('n, 's) world \<Rightarrow> (error + 'n jsval option) \<times> ('n, 's) world" where
  "findOne E tableName pk pkValue w =
     (case send E (QueryCommand (query_params tableName pk pkValue)) w of
        (Inl e, w') \<Rightarrow> (Inl e, w')
      | (Inr data, w') \<Rightarrow>
          (case read_Items data of
             Inl e \<Rightarrow> (Inl e, w')
           | Inr None \<Rightarrow> (Inr None, w')
           | Inr (Some items) \<Rightarrow>
               if length items < 1 then (Inr None, w') else (Inr (Some (items ! 0)), w')))"

definition findMany :: "('n, 's) env \<Rightarrow> string \<Rightarrow> string \<Rightarrow> 'n jsval \<Rightarrow>
    ('n, 's) world \<Rightarrow> (error + 'n jsval list) \<times> ('n, 's) world" where
  "findMany E tableName pk pkValue w =
     (case send E (QueryCommand (query_params tableName pk pkValue)) w of
        (Inl e, w') \<Rightarrow> (Inl e, w')
      | (Inr data, w') \<Rightarrow>
          (case read_Items data of
             Inl e \<Rightarrow> (Inl e, w')
           | Inr None \<Rightarrow> (Inr [], w')
           | Inr (Some items) \<Rightarrow>
               if length items = 0 then (Inr [], w') else (Inr items, w')))"

subsection \<open>Scans: \<^verbatim>\<open>findManyByField\<close>, \<^verbatim>\<open>findManyPlain\<close>, \<^verbatim>\<open>findOperated\<close>, \<^verbatim>\<open>findWithin\<close>\<close>

text \<open>
  \<^verbatim>\<open>data.Items.map((item) => unmarshall(item))\<close>: the first item that
  \<^verbatim>\<open>unmarshall\<close> rejects aborts the whole map.
\<close>

fun unmarshall_each :: "('n, 's) env \<Rightarrow> 'n jsval list \<Rightarrow> error + 'n jsval list" where
  "unmarshall_each E [] = Inr []"
| "unmarshall_each E (item # rest) =
     (case lift_sdk (unmarshall E item) of
        Inl e \<Rightarrow> Inl e
      | Inr x \<Rightarrow> (case unmarshall_each E rest of Inl e \<Rightarrow> Inl e | Inr xs \<Rightarrow> Inr (x # xs)))"

definition findManyByField :: "('n, 's) env \<Rightarrow> string \<Rightarrow> string \<Rightarrow> 'n jsval \<Rightarrow>
    ('n, 's) world \<Rightarrow> (error + 'n jsval list) \<times> ('n, 's) world" where
  "findManyByField E tableName field v w =
     (let params = (table_params tableName)
            \<lparr>FilterExpression := Some (field @ '' = :u''),
             ExpressionAttributeValues := Some [('':u'', attr_S v)]\<rparr>
      in case send E (ScanCommand params) w of
           (Inl e, w') \<Rightarrow> (Inl e, w')
         | (Inr data, w') \<Rightarrow>
             (case read_Items data of
                Inl e \<Rightarrow> (Inl e, w')
              | Inr None \<Rightarrow> (Inr [], w')
              | Inr (Some items) \<Rightarrow>
                  if length items < 1 then (Inr [], w') else (unmarshall_each E items, w')))"

definition findManyPlain :: "('n, 's) env \<Rightarrow> string \<Rightarrow> string \<Rightarrow> 'n obj \<Rightarrow>
    ('n, 's) world \<Rightarrow> (error + 'n jsval list) \<times> ('n, 's) world" where
  "findManyPlain E tableName filterExpression expressionAttributeValues w =
     (let params = (table_params tableName)
            \<lparr>FilterExpression := Some filterExpression,
             ExpressionAttributeValues := Some expressionAttributeValues\<rparr>
      in case send E (ScanCommand params) w of
           (Inl e, w') \<Rightarrow> (Inl e, w')
         | (Inr data, w') \<Rightarrow>
             (case read_Items data of
                Inl e \<Rightarrow> (Inl e, w')
              | Inr None \<Rightarrow> (Inr [], w')
              | Inr (Some items) \<Rightarrow>
                  if length items < 1 then (Inr [], w') else (unmarshall_each E items, w')))"

text \<open>
  \<^verbatim>\<open>!data || !data.Items || data.Items?.length < 1\<close>, and the decoding of a non-empty
  page, as \<^verbatim>\<open>findOperated\<close>, \<^verbatim>\<open>findWithin\<close> and \<^verbatim>\<open>findAll\<close> write it.
\<close>

definition decode_page :: "('n, 's) env \<Rightarrow> 'n response option \<Rightarrow> error + 'n jsval list" where
  "decode_page E data =
     (case data of
        None \<Rightarrow> Inr []
      | Some d \<Rightarrow>
          (case Items d of
             None \<Rightarrow> Inr []
           | Some items \<Rightarrow> if length items < 1 then Inr [] else unmarshall_each E items))"

text \<open>
  The operators map is typed: its own values are strings, and a string is falsy when it is
  empty. An inherited member is a function or an object, hence truthy, and a missing
  property is \<^verbatim>\<open>undefined\<close>. \<^verbatim>\<open>check_filter\<close> is the \<^verbatim>\<open>for\<close> loop over the
  keys of the filter: the first key that fails a test throws.
\<close>

fun property_truthy :: "string property \<Rightarrow> bool" where
  "property_truthy (Own s) = (s \<noteq> [])"
| "property_truthy (Inherited b) = True"
| "property_truthy Absent = False"

fun property_text :: "string property \<Rightarrow> string" where
  "property_text (Own s) = s"
| "property_text (Inherited b) = builtin_text b"
| "property_text Absent = ''undefined''"

fun check_filter :: "'n obj \<Rightarrow> (string \<times> string) list \<Rightarrow> string list \<Rightarrow> error option" where
  "check_filter filter_obj operators [] = None"
| "check_filter filter_obj operators (k # ks) =
     (if \<not> property_truthy (get_property operators k)
      then Some (Error (''Operator for '' @ k @ '' not found''))
      else if typeof (property_value (get_property filter_obj k)) \<noteq> ''string''
            \<and> typeof (property_value (get_property filter_obj k)) \<noteq> ''number''
      then Some (Error (''Value for '' @ k @ '' is not a string or number''))
      else check_filter filter_obj operators ks)"

definition operated_expression :: "(string \<times> string) list \<Rightarrow> string list \<Rightarrow> string" where
  "operated_expression operators filterKeys =
     join '' and ''
       (map (\<lambda>(index, k). ''#field'' @ show_nat index @ '' ''
                            @ property_text (get_property operators k)
                            @ '' :value'' @ show_nat index)
            (enumerate 0 filterKeys))"

definition findOperated :: "('n, 's) env \<Rightarrow> string \<Rightarrow> 'n obj \<Rightarrow> (string \<times> string) list \<Rightarrow>
    ('n, 's) world \<Rightarrow> (error + 'n jsval list) \<times> ('n, 's) world" where
  "findOperated E tableName filter_obj operators w =
     (let filterKeys = Object_keys filter_obj in
      case check_filter filter_obj operators filterKeys of
        Some e \<Rightarrow> (Inl e, w)
      | None \<Rightarrow>
          (case lift_sdk (marshall E False (field_values filter_obj filterKeys)) of
             Inl e \<Rightarrow> (Inl e, w)
           | Inr vs \<Rightarrow>
               let params = (table_params tableName)
                     \<lparr>FilterExpression := Some (operated_expression operators filterKeys),
                      ExpressionAttributeNames := Some (field_names filterKeys),
                      ExpressionAttributeValues := Some vs\<rparr>
               in (case send E (ScanCommand params) w of
                     (Inl e, w') \<Rightarrow> (Inl e, w')
                   | (Inr data, w') \<Rightarrow> (decode_page E data, w'))))"

definition findWithin :: "('n, 's) env \<Rightarrow> string \<Rightarrow> string \<Rightarrow> 'n \<Rightarrow> 'n \<Rightarrow>
    ('n, 's) world \<Rightarrow> (error + 'n jsval list) \<times> ('n, 's) world" where
  "findWithin E tableName key start end_v w =
     (let params = (table_params tableName)
            \<lparr>FilterExpression := Some (key @ '' BETWEEN :start AND :end''),
             ExpressionAttributeValues :=
               Some [('':start'', attr_N (Number_toString E start)),
                     ('':end'', attr_N (Number_toString E end_v))]\<rparr>
      in case send E (ScanCommand params) w of
           (Inl e, w') \<Rightarrow> (Inl e, w')
         | (Inr data, w') \<Rightarrow> (decode_page E data, w'))"

subsection \<open>The generator \<^verbatim>\<open>findAll\<close>\<close>

text \<open>
  \<^verbatim>\<open>findAll\<close> is an async generator: calling it runs nothing, and each call of
  \<^verbatim>\<open>next()\<close> runs the body up to the next \<^verbatim>\<open>yield\<close> or to its end. The generator
  object is therefore a state machine: created with its arguments, suspended at a
  \<^verbatim>\<open>yield\<close> with \<^verbatim>\<open>params\<close> and \<^verbatim>\<open>data\<close> in scope, or completed. One call of
  \<^verbatim>\<open>next()\<close> either yields a batch or reports that the sequence is done; an error that
  escaped the body would make \<^verbatim>\<open>next()\<close> reject (\<open>Inl\<close>).
\<close>

datatype 'n findAll_gen =
    Created string "'n option"
  | Suspended "'n params" "'n response option"
  | Completed

datatype 'n iterator_result = Yield "'n jsval list" | Done

definition console_log :: "error \<Rightarrow> ('n, 's) world \<Rightarrow> ('n, 's) world" where
  "console_log e w = w\<lparr>console := console w @ [e]\<rparr>"

text \<open>One round of the \<^verbatim>\<open>do\<close> body inside the \<^verbatim>\<open>try\<close>, up to its \<^verbatim>\<open>yield\<close>.\<close>

definition scan_page :: "('n, 's) env \<Rightarrow> 'n params \<Rightarrow> ('n, 's) world \<Rightarrow>
    (error + 'n iterator_result) \<times> 'n findAll_gen \<times> ('n, 's) world" where
  "scan_page E params w =
     (case send E (ScanCommand params) w of
        (Inl e, w') \<Rightarrow> (Inr Done, Completed, console_log e w')
      | (Inr data, w') \<Rightarrow>
          (case decode_page E data of
             Inl e \<Rightarrow> (Inr Done, Completed, console_log e w')
           | Inr items \<Rightarrow> (Inr (Yield items), Suspended params data, w')))"

definition findAll :: "string \<Rightarrow> 'n option \<Rightarrow> 'n findAll_gen" where
  "findAll tableName limit = Created tableName limit"

fun findAll_next :: "('n::numeral, 's) env \<Rightarrow> 'n findAll_gen \<Rightarrow> ('n, 's) world \<Rightarrow>
    (error + 'n iterator_result) \<times> 'n findAll_gen \<times> ('n, 's) world" where
  "findAll_next E (Created tableName limit) w =
     (let params = (table_params tableName)
            \<lparr>Limit := Some (case limit of None \<Rightarrow> 10 | Some l \<Rightarrow> l),
             ExclusiveStartKey := None\<rparr>
      in scan_page E params w)"
| "findAll_next E (Suspended params data) w =
     (case data of
        None \<Rightarrow>
          (Inr Done, Completed,
           console_log
             (TypeError ''Cannot read properties of undefined (reading 'LastEvaluatedKey')'') w)
      | Some d \<Rightarrow>
          (let params = params\<lparr>ExclusiveStartKey := LastEvaluatedKey d\<rparr>
           in if ExclusiveStartKey params \<noteq> None then scan_page E params w
              else (Inr Done, Completed, w)))"
| "findAll_next E Completed w = (Inr Done, Completed, w)"

text \<open>A consumer that calls \<^verbatim>\<open>next()\<close> a given number of times, keeping the results.\<close>

fun nexts :: "nat \<Rightarrow> ('n::numeral, 's) env \<Rightarrow> 'n findAll_gen \<Rightarrow> ('n, 's) world \<Rightarrow>
    (error + 'n iterator_result) list \<times> 'n findAll_gen \<times> ('n, 's) world" where
  "nexts 0 E g w = ([], g, w)"
| "nexts (Suc n) E g w =
     (case findAll_next E g w of
        (r, g', w') \<Rightarrow> (case nexts n E g' w' of (rs, g'', w'') \<Rightarrow> (r # rs, g'', w'')))"

section \<open>The client factory and the document adapter\<close>

text \<open>
  Loading the modules: \<^verbatim>\<open>dynamodb-client.ts\<close> reads the environment variables and
  constructs the first client; \<^verbatim>\<open>dynamodb-doc.ts\<close> then evaluates
  \<^verbatim>\<open>DynamoDBDocumentClient.from(ddbClient, translateConfig)\<close> once, so the constant
  \<^verbatim>\<open>ddbDocClient\<close> wraps the client object that existed at that moment.
\<close>

definition module_init :: "string option \<Rightarrow> string option \<Rightarrow> string option \<Rightarrow> 's \<Rightarrow>
    ('n, 's) world" where
  "module_init env_REGION env_AWS_ACCESS_KEY_ID env_AWS_SECRET_ACCESS_KEY s =
     (let client = \<lparr>region = env_REGION, credentials = None\<rparr>
      in \<lparr>DynamoDB_REGION = env_REGION,
          AWS_ACCESS_KEY_ID = env_AWS_ACCESS_KEY_ID,
          AWS_SECRET_ACCESS_KEY = env_AWS_SECRET_ACCESS_KEY,
          ddbClient = client, ddbDocClient = client,
          backend = s, requests = [], console = []\<rparr>)"

text \<open>\<^verbatim>\<open>setRegion\<close> of \<^verbatim>\<open>src/dynamodb-client.ts\<close>.\<close>

definition setRegion :: "string \<Rightarrow> ('n, 's) world \<Rightarrow> ('n, 's) world" where
  "setRegion r w = w\<lparr>ddbClient := \<lparr>region = Some r, credentials = None\<rparr>\<rparr>"

text \<open>
  The setters of the two other versions of the client module (the unnamed source file
  \<^verbatim>\<open>part_000\<close>): the first keeps the credentials in module variables, the second does not.
\<close>

definition setRegion_a :: "string \<Rightarrow> ('n, 's) world \<Rightarrow> ('n, 's) world" where
  "setRegion_a r w =
     w\<lparr>DynamoDB_REGION := Some r,
       ddbClient := \<lparr>region = Some r,
                     credentials = Some (AWS_ACCESS_KEY_ID w, AWS_SECRET_ACCESS_KEY w)\<rparr>\<rparr>"

definition setAccessKey_a :: "string \<times> string \<Rightarrow> ('n, 's) world \<Rightarrow> ('n, 's) world" where
  "setAccessKey_a accessKey w =
     w\<lparr>AWS_ACCESS_KEY_ID := Some (fst accessKey),
       AWS_SECRET_ACCESS_KEY := Some (snd accessKey),
       ddbClient := \<lparr>region = DynamoDB_REGION w,
                     credentials = Some (Some (fst accessKey), Some (snd accessKey))\<rparr>\<rparr>"

definition setConfig :: "string \<times> string \<Rightarrow> string option \<Rightarrow> ('n, 's) world \<Rightarrow> ('n, 's) world" where
  "setConfig accessKey r w =
     (let new_region = (case r of Some x \<Rightarrow> Some x | None \<Rightarrow> DynamoDB_REGION w)
      in w\<lparr>DynamoDB_REGION := new_region,
           ddbClient := \<lparr>region = new_region,
                         credentials = Some (Some (fst accessKey), Some (snd accessKey))\<rparr>\<rparr>)"

definition setRegion_b :: "string \<Rightarrow> ('n, 's) world \<Rightarrow> ('n, 's) world" where
  "setRegion_b r w =
     w\<lparr>DynamoDB_REGION := Some r, ddbClient := \<lparr>region = Some r, credentials = None\<rparr>\<rparr>"

definition setAccessKey_b :: "string \<times> string \<Rightarrow> ('n, 's) world \<Rightarrow> ('n, 's) world" where
  "setAccessKey_b accessKey w =
     w\<lparr>ddbClient := \<lparr>region = DynamoDB_REGION w,
                     credentials = Some (Some (fst accessKey), Some (snd accessKey))\<rparr>\<rparr>"

datatype setter =
    SetRegion string
  | SetRegion_a string
  | SetAccessKey_a "string \<times> string"
  | SetRegion_b string
  | SetAccessKey_b "string \<times> string"
  | SetConfig "string \<times> string" "string option"

fun call_setter :: "setter \<Rightarrow> ('n, 's) world \<Rightarrow> ('n, 's) world" where
  "call_setter (SetRegion r) w = setRegion r w"
| "call_setter (SetRegion_a r) w = setRegion_a r w"
| "call_setter (SetAccessKey_a k) w = setAccessKey_a k w"
| "call_setter (SetRegion_b r) w = setRegion_b r w"
| "call_setter (SetAccessKey_b k) w = setAccessKey_b k w"
| "call_setter (SetConfig k r) w = setConfig k r w"

section \<open>An example environment\<close>

text \<open>
  Numbers are integers rendered in decimal; \<^verbatim>\<open>marshall\<close> and \<^verbatim>\<open>unmarshall\<close> handle
  strings and numbers; the store is a table of pages: its state is the number of requests
  it has answered, and it answers the \<open>i\<close>-th request with the \<open>i\<close>-th page, or rejects
  when there is none.
\<close>

definition show_int :: "int \<Rightarrow> string" where
  "show_int i = (if i < 0 then ''-'' @ show_nat (nat (- i)) else show_nat (nat i))"

fun marshall_value :: "int jsval \<Rightarrow> string + int jsval" where
  "marshall_value (JStr s) = Inr (attr_S (JStr s))"
| "marshall_value (JNum n) = Inr (attr_N (show_int n))"
| "marshall_value v = Inl ''Unsupported type passed. Pass options.convertClassInstanceToMap=true to marshall typeof object as map attribute.''"

fun marshall_example :: "bool \<Rightarrow> int obj \<Rightarrow> string + int obj" where
  "marshall_example removeUndefinedValues [] = Inr []"
| "marshall_example removeUndefinedValues ((k, v) # rest) =
     (if removeUndefinedValues \<and> v = JUndefined then marshall_example removeUndefinedValues rest
      else case marshall_value v of
             Inl m \<Rightarrow> Inl m
           | Inr a \<Rightarrow> (case marshall_example removeUndefinedValues rest of
                         Inl m \<Rightarrow> Inl m
                       | Inr as \<Rightarrow> Inr ((k, a) # as)))"

definition parse_int :: "string \<Rightarrow> int option" where
  "parse_int s =
     (case s of
        [] \<Rightarrow> None
      | c # cs \<Rightarrow>
          if c = CHR ''-''
          then (if cs = [] then None else map_option (\<lambda>n. - int n) (parse_nat 0 cs))
          else map_option int (parse_nat 0 s))"

fun unmarshall_attribute :: "int jsval \<Rightarrow> string + int jsval" where
  "unmarshall_attribute (JObj [(t, JStr s)]) =
     (if t = ''S'' then Inr (JStr s)
      else if t = ''N'' then
        (case parse_int s of
           Some n \<Rightarrow> Inr (JNum n)
         | None \<Rightarrow> Inl (s @ '' can't be converted to number''))
      else Inl (''Unsupported type passed: '' @ t))"
| "unmarshall_attribute v = Inl ''No value defined''"

fun unmarshall_attributes :: "int obj \<Rightarrow> string + int obj" where
  "unmarshall_attributes [] = Inr []"
| "unmarshall_attributes ((k, a) # rest) =
     (case unmarshall_attribute a of
        Inl m \<Rightarrow> Inl m
      | Inr v \<Rightarrow> (case unmarshall_attributes rest of
                    Inl m \<Rightarrow> Inl m
                  | Inr vs \<Rightarrow> Inr ((k, v) # vs)))"

fun unmarshall_example :: "int jsval \<Rightarrow> string + int jsval" where
  "unmarshall_example (JObj ps) =
     (case unmarshall_attributes ps of Inl m \<Rightarrow> Inl m | Inr vs \<Rightarrow> Inr (JObj vs))"
| "unmarshall_example v = Inl ''No value defined''"

definition paged_store :: "(string + int response option) list \<Rightarrow> nat \<Rightarrow> config \<Rightarrow> int command \<Rightarrow>
    (string + int response option) \<times> nat" where
  "paged_store pages i c cmd =
     (if i < length pages then (pages ! i, Suc i) else (Inl ''ResourceNotFoundException'', Suc i))"

definition example_env :: "(string + int response option) list \<Rightarrow> (int, nat) env" where
  "example_env pages =
     \<lparr>Number_toString = show_int, marshall = marshall_example,
      unmarshall = unmarshall_example, store = paged_store pages\<rparr>"

definition example_world :: "(int, nat) world" where
  "example_world = module_init (Some ''eu-west-1'') None None 0"

definition empty_page :: "int response" where
  "empty_page = \<lparr>Items = Some [], LastEvaluatedKey = None, Attributes = None\<rparr>"

definition first_page :: "int response" where
  "first_page =
     \<lparr>Items = Some [JObj [(''id'', attr_S (JStr ''1'')), (''age'', attr_N ''30'')]],
      LastEvaluatedKey = Some [(''id'', attr_S (JStr ''1''))], Attributes = None\<rparr>"

definition last_page :: "int response" where
  "last_page =
     \<lparr>Items = Some [JObj [(''id'', attr_S (JStr ''2'')), (''age'', attr_N ''41'')]],
      LastEvaluatedKey = None, Attributes = None\<rparr>"

section \<open>An invariant of the generator\<close>

text \<open>
  In every state of a generator made by \<^verbatim>\<open>findAll(t, limit)\<close> the table name and the
  page limit are the ones it was created with: \<^verbatim>\<open>params.Limit\<close> and
  \<^verbatim>\<open>params.TableName\<close> are never assigned after the object literal.
\<close>

fun gen_inv :: "string \<Rightarrow> 'n::numeral \<Rightarrow> 'n findAll_gen \<Rightarrow> bool" where
  "gen_inv t l (Created tableName limit) =
     (tableName = t \<and> (case limit of None \<Rightarrow> 10 | Some x \<Rightarrow> x) = l)"
| "gen_inv t l (Suspended params data) = (TableName params = t \<and> Limit params = Some l)"
| "gen_inv t l Completed = True"

section \<open>Basic facts\<close>

lemma length_filter_eq_iff:
  "length (filter P xs) = length xs \<longleftrightarrow> (\<forall>x\<in>set xs. P x)"
proof
  assume eq: "length (filter P xs) = length xs"
  show "\<forall>x\<in>set xs. P x"
  proof
    fix x assume "x \<in> set xs"
    then show "P x" using eq length_filter_less[of x xs P] by auto
  qed
next
  assume "\<forall>x\<in>set xs. P x"
  then show "length (filter P xs) = length xs" by simp
qed

lemma no_key_iff:
  "length (non_key_fields pk sk item) = length (Object_keys item)
     \<longleftrightarrow> pk \<notin> set (Object_keys item) \<and> (\<forall>s. sk = Some s \<longrightarrow> s \<notin> set (Object_keys item))"
  unfolding non_key_fields_def length_filter_eq_iff by auto

lemma only_keys_no_fields:
  assumes "set (Object_keys item) \<subseteq> {pk} \<union> set_option sk"
  shows "non_key_fields pk sk item = []"
  using assms unfolding non_key_fields_def by (auto simp: filter_empty_conv)

text \<open>Every \<^verbatim>\<open>send\<close> leaves exactly one request in the trace, whatever the store answers.\<close>

lemma send_requests: "requests (snd (send E cmd w)) = requests w @ [(ddbDocClient w, cmd)]"
  by (simp add: send_def split: prod.splits)

lemma send_result_requests:
  "send E cmd w = (r, w') \<Longrightarrow> requests w' = requests w @ [(ddbDocClient w, cmd)]"
  using send_requests[of E cmd w] by simp

lemma send_not_same: "snd (send E cmd w) \<noteq> w"
proof
  assume "snd (send E cmd w) = w"
  then have "requests (snd (send E cmd w)) = requests w" by simp
  then show False by (simp add: send_requests)
qed

lemma send_not_Error: "fst (send E cmd w) \<noteq> Inl (Error m)"
  by (simp add: send_def lift_sdk_def split: prod.splits sum.splits)

lemma insertOrUpdate_only_keys:
  assumes "item \<noteq> []" and "set (Object_keys item) \<subseteq> {pk} \<union> set_option sk"
  shows "insertOrUpdate E tableName pk item sk w =
     send E (UpdateItemCommand ((table_params tableName)
        \<lparr>Key := Some (case sk of
                        None \<Rightarrow> [(pk, attr_S (property_value (get_property item pk)))]
                      | Some s \<Rightarrow>
                          if s \<noteq> []
                          then assign_property
                                 [(pk, attr_S (property_value (get_property item pk)))]
                                 s (attr_S (property_value (get_property item s)))
                          else [(pk, attr_S (property_value (get_property item pk)))]),
         ReturnValues := Some ''ALL_NEW''\<rparr>)) w"
proof -
  have nk: "non_key_fields pk sk item = []" using assms(2) by (rule only_keys_no_fields)
  have len: "length (Object_keys item) \<noteq> 0" using assms(1) by (simp add: Object_keys_def)
  show ?thesis
    using len nk by (cases sk) (simp_all add: insertOrUpdate_def Let_def table_params_def)
qed

text \<open>
  The object \<^verbatim>\<open>{ [pk]: a }\<close> after the assignment \<^verbatim>\<open>[s] = b\<close>: the value of \<^verbatim>\<open>pk\<close>
  is replaced when \<^verbatim>\<open>s\<close> is \<^verbatim>\<open>pk\<close>; nothing is added when \<^verbatim>\<open>s\<close> is
  \<^verbatim>\<open>__proto__\<close>; otherwise the object has both properties, an array index before a
  name that is none, and two array indices in ascending order.
\<close>

lemma assign_property_single:
  "assign_property [(pk, a)] s b =
     (if s = pk then [(pk, b)]
      else if s = ''__proto__'' then [(pk, a)]
      else (case array_index s of
              None \<Rightarrow> [(pk, a), (s, b)]
            | Some n \<Rightarrow>
                (case array_index pk of
                   None \<Rightarrow> [(s, b), (pk, a)]
                 | Some m \<Rightarrow> if m < n then [(pk, a), (s, b)] else [(s, b), (pk, a)])))"
  by (simp add: assign_property_def split: option.splits)

lemma upsert_key_explicit:
  "(case sk of
      None \<Rightarrow> [(pk, attr_S (property_value (get_property item pk)))]
    | Some s \<Rightarrow>
        if s \<noteq> []
        then assign_property [(pk, attr_S (property_value (get_property item pk)))]
               s (attr_S (property_value (get_property item s)))
        else [(pk, attr_S (property_value (get_property item pk)))])
   = (case sk of
        None \<Rightarrow> [(pk, JObj [(''S'', property_value (get_property item pk))])]
      | Some s \<Rightarrow>
          if s = [] \<or> s = pk \<or> s = ''__proto__''
          then [(pk, JObj [(''S'', property_value (get_property item pk))])]
          else (case array_index s of
                  None \<Rightarrow> [(pk, JObj [(''S'', property_value (get_property item pk))]),
                           (s, JObj [(''S'', property_value (get_property item s))])]
                | Some n \<Rightarrow>
                    (case array_index pk of
                       None \<Rightarrow> [(s, JObj [(''S'', property_value (get_property item s))]),
                                (pk, JObj [(''S'', property_value (get_property item pk))])]
                     | Some m \<Rightarrow>
                         if m < n
                         then [(pk, JObj [(''S'', property_value (get_property item pk))]),
                               (s, JObj [(''S'', property_value (get_property item s))])]
                         else [(s, JObj [(''S'', property_value (get_property item s))]),
                               (pk, JObj [(''S'', property_value (get_property item pk))])])))"
  by (cases sk) (auto simp add: assign_property_single attr_S_def split: option.splits)

lemma insertOrUpdate_sent:
  "requests (snd (insertOrUpdate E tableName pk item sk w)) = requests w
   \<or> (\<exists>p. requests (snd (insertOrUpdate E tableName pk item sk w))
              = requests w @ [(ddbDocClient w, UpdateItemCommand p)]
          \<and> Key p = Some (case sk of
                None \<Rightarrow> [(pk, attr_S (property_value (get_property item pk)))]
              | Some s \<Rightarrow>
                  if s \<noteq> []
                  then assign_property [(pk, attr_S (property_value (get_property item pk)))]
                         s (attr_S (property_value (get_property item s)))
                  else [(pk, attr_S (property_value (get_property item pk)))]))"
  by (cases sk)
     (auto simp add: insertOrUpdate_def Let_def send_requests table_params_def
           split: sum.splits)

lemma upsert_rejects_iff:
  "insertOrUpdate E tableName pk item sk w = (Inl (Error ''No partition key is found''), w)
     \<longleftrightarrow> pk \<notin> set (Object_keys item) \<and> (\<forall>s. sk = Some s \<longrightarrow> s \<notin> set (Object_keys item))"
proof (cases "length (non_key_fields pk sk item) = length (Object_keys item)")
  case True
  then show ?thesis using no_key_iff[of pk sk item] by (simp add: insertOrUpdate_def Let_def)
next
  case False
  have "insertOrUpdate E tableName pk item sk w \<noteq> (Inl (Error ''No partition key is found''), w)"
    using False send_not_same[of E _ w]
    by (auto simp add: insertOrUpdate_def Let_def lift_sdk_def prod_eq_iff
             split: sum.splits option.splits if_splits)
  then show ?thesis using False no_key_iff[of pk sk item] by simp
qed

subsection \<open>Sending and decoding\<close>

lemma send_cases:
  obtains w' where
    "send E cmd w = (lift_sdk (fst (store E (backend w) (ddbDocClient w) cmd)), w')"
    and "requests w' = requests w @ [(ddbDocClient w, cmd)]"
    and "console w' = console w" and "ddbDocClient w' = ddbDocClient w"
  by (cases "store E (backend w) (ddbDocClient w) cmd") (simp add: send_def)


lemma send_console: "console (snd (send E cmd w)) = console w"
  by (simp add: send_def split: prod.splits)


lemma unmarshall_each_length:
  "unmarshall_each E items = Inr xs \<Longrightarrow> length xs = length items"
  by (induction items arbitrary: xs) (auto split: sum.splits)


lemma decode_page_empty:
  assumes "Items d = None \<or> Items d = Some []"
  shows "decode_page E (Some d) = Inr []"
  using assms by (auto simp add: decode_page_def)

lemma decode_page_length:
  assumes "decode_page E data = Inr xs"
  shows "xs = [] \<or> (\<exists>d items. data = Some d \<and> Items d = Some items \<and> length xs = length items)"
  using assms unmarshall_each_length[of E _ xs]
  by (auto simp add: decode_page_def split: option.splits if_splits)

subsection \<open>The validation of \<^verbatim>\<open>findOperated\<close>\<close>

lemma check_filter_rejects:
  assumes "k \<in> set ks"
    and "get_property operators k = Absent
         \<or> (typeof (property_value (get_property filter_obj k)) \<noteq> ''string''
            \<and> typeof (property_value (get_property filter_obj k)) \<noteq> ''number'')"
  shows "check_filter filter_obj operators ks \<noteq> None"
  using assms by (induction ks) auto

lemma check_filter_Some_Error:
  "check_filter filter_obj operators ks = Some e \<Longrightarrow> \<exists>m. e = Error m"
  by (induction ks) (auto split: if_splits)

text \<open>
  A field whose value is not a string or a number, or whose name is neither a property of
  the operators map nor a member of \<^verbatim>\<open>Object.prototype\<close>, makes the call fail before
  anything is sent.
\<close>

lemma findOperated_rejects:
  assumes "k \<in> set (Object_keys filter_obj)"
    and "get_property operators k = Absent
         \<or> (typeof (property_value (get_property filter_obj k)) \<noteq> ''string''
            \<and> typeof (property_value (get_property filter_obj k)) \<noteq> ''number'')"
  shows "\<exists>m. findOperated E tableName filter_obj operators w = (Inl (Error m), w)"
proof -
  from check_filter_rejects[OF assms] obtain e
    where e: "check_filter filter_obj operators (Object_keys filter_obj) = Some e" by auto
  then obtain m where "e = Error m" using check_filter_Some_Error by blast
  with e show ?thesis by (simp add: findOperated_def Let_def)
qed

subsection \<open>The setters never reach the document client\<close>

lemma ddbDocClient_call_setter: "ddbDocClient (call_setter c w) = ddbDocClient w"
  by (cases c) (simp_all add: setRegion_def setRegion_a_def setAccessKey_a_def
        setRegion_b_def setAccessKey_b_def setConfig_def Let_def)

lemma requests_call_setter: "requests (call_setter c w) = requests w"
  by (cases c) (simp_all add: setRegion_def setRegion_a_def setAccessKey_a_def
        setRegion_b_def setAccessKey_b_def setConfig_def Let_def)

lemma ddbDocClient_setters: "ddbDocClient (fold call_setter cs w) = ddbDocClient w"
  by (induction cs arbitrary: w) (simp_all add: ddbDocClient_call_setter)

lemma requests_setters: "requests (fold call_setter cs w) = requests w"
  by (induction cs arbitrary: w) (simp_all add: requests_call_setter)

text \<open>
  Whatever setters were called, in whatever order, the next request leaves through the
  client that \<^verbatim>\<open>ddbDocClient\<close> wrapped when the module was loaded.
\<close>

lemma send_after_setters:
  "requests (snd (send E cmd (fold call_setter cs w))) = requests w @ [(ddbDocClient w, cmd)]"
  by (simp add: send_requests ddbDocClient_setters requests_setters)

subsection \<open>Steps of the generator\<close>

lemma scan_page_cases:
  obtains (failed) m w' where "send E (ScanCommand params) w = (Inl m, w')"
      and "scan_page E params w = (Inr Done, Completed, console_log m w')"
    | (undecodable) data m w' where "send E (ScanCommand params) w = (Inr data, w')"
      and "decode_page E data = Inl m"
      and "scan_page E params w = (Inr Done, Completed, console_log m w')"
    | (yielded) data items w' where "send E (ScanCommand params) w = (Inr data, w')"
      and "decode_page E data = Inr items"
      and "scan_page E params w = (Inr (Yield items), Suspended params data, w')"
proof (cases "send E (ScanCommand params) w")
  case (Pair r w')
  show ?thesis
  proof (cases r)
    case (Inl m)
    with Pair show ?thesis using failed by (simp add: scan_page_def)
  next
    case (Inr data)
    show ?thesis
    proof (cases "decode_page E data")
      case (Inl m)
      with Pair Inr show ?thesis using undecodable by (simp add: scan_page_def)
    next
      case r2: (Inr items)
      with Pair Inr show ?thesis using yielded by (simp add: scan_page_def)
    qed
  qed
qed

lemma scan_page_requests:
  "requests (snd (snd (scan_page E params w))) = requests w @ [(ddbDocClient w, ScanCommand params)]"
  using send_requests[of E "ScanCommand params" w]
  by (cases rule: scan_page_cases[of E params w]) (simp_all add: console_log_def)

lemma scan_page_never_throws: "fst (scan_page E params w) \<noteq> Inl e"
  by (cases rule: scan_page_cases[of E params w]) simp_all

lemma findAll_next_never_throws: "fst (findAll_next E g w) \<noteq> Inl e"
  by (cases g) (simp_all add: Let_def scan_page_never_throws split: option.splits)

lemma nexts_never_throw: "Inl e \<notin> set (fst (nexts n E g w))"
proof (induction n arbitrary: g w)
  case 0
  then show ?case by simp
next
  case (Suc n)
  obtain r g' w' where st: "findAll_next E g w = (r, g', w')" by (cases "findAll_next E g w") auto
  have "r \<noteq> Inl e" using findAll_next_never_throws[of E g w e] st by simp
  then show ?case using Suc[of g' w'] st by (auto split: prod.splits)
qed

lemma nexts_Completed: "nexts n E Completed w = (replicate n (Inr Done), Completed, w)"
  by (induction n) simp_all

lemma scan_page_failed:
  assumes "fst (store E (backend w) (ddbDocClient w) (ScanCommand params)) = Inl m"
  shows "\<exists>w'. scan_page E params w = (Inr Done, Completed, w')
            \<and> console w' = console w @ [SdkError m]
            \<and> requests w' = requests w @ [(ddbDocClient w, ScanCommand params)]"
proof -
  obtain w' where s: "send E (ScanCommand params) w = (Inl (SdkError m), w')"
    and r: "requests w' = requests w @ [(ddbDocClient w, ScanCommand params)]"
    and c: "console w' = console w"
    using send_cases[of E "ScanCommand params" w] assms by (auto simp add: lift_sdk_def)
  show ?thesis using s r c by (simp add: scan_page_def console_log_def)
qed

lemma findAll_next_no_request:
  "requests (snd (snd (findAll_next E g w))) = requests w
   \<or> (\<exists>params. findAll_next E g w = scan_page E params w)"
  by (cases g) (auto simp add: Let_def console_log_def split: option.splits)

lemma scan_page_inv:
  assumes "TableName params = t" and "Limit params = Some l"
  shows "gen_inv t l (fst (snd (scan_page E params w)))"
  using assms by (cases rule: scan_page_cases[of E params w]) simp_all

lemma scan_page_batch_length:
  assumes honours: "\<forall>s c p d items. fst (store E s c (ScanCommand p)) = Inr (Some d)
               \<and> Items d = Some items \<and> Limit p = Some l \<longrightarrow> length items \<le> k"
    and lim: "Limit params = Some l"
    and y: "fst (scan_page E params w) = Inr (Yield b)"
  shows "length b \<le> k"
proof (cases rule: scan_page_cases[of E params w])
  case (failed m w2)
  with y show ?thesis by simp
next
  case (undecodable data m w2)
  with y show ?thesis by simp
next
  case (yielded data items w2)
  with y have b: "b = items" by simp
  obtain w1 where s: "send E (ScanCommand params) w
        = (lift_sdk (fst (store E (backend w) (ddbDocClient w) (ScanCommand params))), w1)"
    by (rule send_cases)
  from decode_page_length[OF yielded(2)] show ?thesis
  proof
    assume "items = []" with b show ?thesis by simp
  next
    assume "\<exists>d its. data = Some d \<and> Items d = Some its \<and> length items = length its"
    then obtain d its where d: "data = Some d" "Items d = Some its" "length items = length its"
      by blast
    from s yielded(1) d(1)
    have "lift_sdk (fst (store E (backend w) (ddbDocClient w) (ScanCommand params))) = Inr (Some d)"
      by simp
    then have "fst (store E (backend w) (ddbDocClient w) (ScanCommand params)) = Inr (Some d)"
      by (simp add: lift_sdk_def split: sum.splits)
    with honours d(2) lim have "length its \<le> k" by blast
    with d(3) b show ?thesis by simp
  qed
qed

lemma findAll_next_scan:
  assumes "gen_inv t l g"
  shows "findAll_next E g w = (Inr Done, Completed, w)
       \<or> (\<exists>e. findAll_next E g w = (Inr Done, Completed, console_log e w))
       \<or> (\<exists>p. findAll_next E g w = scan_page E p w \<and> TableName p = t \<and> Limit p = Some l)"
proof (cases g)
  case (Created tableName limit)
  let ?p = "(table_params tableName)
            \<lparr>Limit := Some (case limit of None \<Rightarrow> 10 | Some l \<Rightarrow> l),
             ExclusiveStartKey := None\<rparr>"
  have "findAll_next E g w = scan_page E ?p w \<and> TableName ?p = t \<and> Limit ?p = Some l"
    using Created assms by (simp add: Let_def table_params_def)
  then show ?thesis by blast
next
  case (Suspended params data)
  show ?thesis
  proof (cases data)
    case None
    with Suspended have "findAll_next E g w = (Inr Done, Completed, console_log
        (TypeError ''Cannot read properties of undefined (reading 'LastEvaluatedKey')'') w)"
      by simp
    then show ?thesis by blast
  next
    case (Some d)
    show ?thesis
    proof (cases "LastEvaluatedKey d")
      case None
      with Some Suspended show ?thesis by (simp add: Let_def)
    next
      case key: (Some key)
      let ?p = "params\<lparr>ExclusiveStartKey := Some key\<rparr>"
      have "findAll_next E g w = scan_page E ?p w \<and> TableName ?p = t \<and> Limit ?p = Some l"
        using Suspended Some key assms by (simp add: Let_def)
      then show ?thesis by blast
    qed
  qed
next
  case Completed
  then show ?thesis by simp
qed

lemma findAll_next_inv:
  assumes "gen_inv t l g"
  shows "gen_inv t l (fst (snd (findAll_next E g w)))"
  using findAll_next_scan[OF assms, of E w] scan_page_inv[of _ t l E w] by auto

lemma findAll_next_requests:
  assumes "gen_inv t l g"
  shows "requests (snd (snd (findAll_next E g w))) = requests w
       \<or> (\<exists>p. requests (snd (snd (findAll_next E g w)))
                  = requests w @ [(ddbDocClient w, ScanCommand p)]
               \<and> TableName p = t \<and> Limit p = Some l)"
  using findAll_next_scan[OF assms, of E w] scan_page_requests[of E _ w]
  by (auto simp add: console_log_def)

lemma findAll_next_batch_length:
  assumes honours: "\<forall>s c p d items. fst (store E s c (ScanCommand p)) = Inr (Some d)
               \<and> Items d = Some items \<and> Limit p = Some l \<longrightarrow> length items \<le> k"
    and inv: "gen_inv t l g"
    and y: "fst (findAll_next E g w) = Inr (Yield b)"
  shows "length b \<le> k"
proof -
  from findAll_next_scan[OF inv, of E w] y
  obtain p where p: "findAll_next E g w = scan_page E p w" "Limit p = Some l" by auto
  from y p(1) have "fst (scan_page E p w) = Inr (Yield b)" by simp
  from scan_page_batch_length[OF honours p(2) this] show ?thesis .
qed


lemma nexts_requests:
  assumes "gen_inv t l g"
  shows "\<exists>new. requests (snd (snd (nexts n E g w))) = requests w @ new
            \<and> (\<forall>x\<in>set new. \<exists>p. snd x = ScanCommand p \<and> TableName p = t \<and> Limit p = Some l)"
  using assms
proof (induction n arbitrary: g w)
  case 0
  then show ?case by simp
next
  case (Suc n)
  obtain r g1 w1 where st: "findAll_next E g w = (r, g1, w1)"
    by (cases "findAll_next E g w") auto
  have inv: "gen_inv t l g1" using findAll_next_inv[OF Suc.prems, of E w] st by simp
  from Suc.IH[OF inv, of w1] obtain new1 where
    n1: "requests (snd (snd (nexts n E g1 w1))) = requests w1 @ new1"
    and a1: "\<forall>x\<in>set new1. \<exists>p. snd x = ScanCommand p \<and> TableName p = t \<and> Limit p = Some l"
    by blast
  have run: "snd (snd (nexts (Suc n) E g w)) = snd (snd (nexts n E g1 w1))"
    using st by (simp split: prod.splits)
  from findAll_next_requests[OF Suc.prems, of E w] st
  have "requests w1 = requests w
       \<or> (\<exists>p. requests w1 = requests w @ [(ddbDocClient w, ScanCommand p)]
               \<and> TableName p = t \<and> Limit p = Some l)" by simp
  then show ?case
  proof
    assume "requests w1 = requests w"
    with n1 a1 run show ?thesis by auto
  next
    assume "\<exists>p. requests w1 = requests w @ [(ddbDocClient w, ScanCommand p)]
               \<and> TableName p = t \<and> Limit p = Some l"
    then obtain p where p: "requests w1 = requests w @ [(ddbDocClient w, ScanCommand p)]"
      "TableName p = t" "Limit p = Some l" by blast
    have "requests (snd (snd (nexts (Suc n) E g w)))
            = requests w @ ((ddbDocClient w, ScanCommand p) # new1)"
      using n1 p(1) run by simp
    moreover have "\<forall>x\<in>set ((ddbDocClient w, ScanCommand p) # new1).
                     \<exists>p. snd x = ScanCommand p \<and> TableName p = t \<and> Limit p = Some l"
      using a1 p(2,3) by simp
    ultimately show ?thesis by blast
  qed
qed

lemma nexts_batches:
  assumes honours: "\<forall>s c p d items. fst (store E s c (ScanCommand p)) = Inr (Some d)
               \<and> Items d = Some items \<and> Limit p = Some l \<longrightarrow> length items \<le> k"
    and inv: "gen_inv t l g"
    and y: "Inr (Yield b) \<in> set (fst (nexts n E g w))"
  shows "length b \<le> k"
  using inv y
proof (induction n arbitrary: g w)
  case 0
  then show ?case by simp
next
  case (Suc n)
  obtain r g1 w1 where st: "findAll_next E g w = (r, g1, w1)"
    by (cases "findAll_next E g w") auto
  have inv1: "gen_inv t l g1" using findAll_next_inv[OF Suc.prems(1), of E w] st by simp
  have "fst (nexts (Suc n) E g w) = r # fst (nexts n E g1 w1)"
    using st by (simp split: prod.splits)
  with Suc.prems(2) have "r = Inr (Yield b) \<or> Inr (Yield b) \<in> set (fst (nexts n E g1 w1))"
    by auto
  then show ?case
  proof
    assume "r = Inr (Yield b)"
    with st have "fst (findAll_next E g w) = Inr (Yield b)" by simp
    from findAll_next_batch_length[OF honours Suc.prems(1) this] show ?thesis .
  next
    assume "Inr (Yield b) \<in> set (fst (nexts n E g1 w1))"
    from Suc.IH[OF inv1 this] show ?thesis .
  qed
qed

lemma scan_page_Done_logged:
  assumes "fst (scan_page E params w) = Inr Done"
  shows "\<exists>e. console (snd (snd (scan_page E params w))) = console w @ [e]"
proof (cases rule: scan_page_cases[of E params w])
  case (failed m w')
  then show ?thesis using send_console[of E "ScanCommand params" w] by (simp add: console_log_def)
next
  case (undecodable data m w')
  then show ?thesis using send_console[of E "ScanCommand params" w] by (simp add: console_log_def)
next
  case (yielded data items w')
  with assms show ?thesis by simp
qed

lemma findAll_next_yield:
  assumes "fst (findAll_next E g w) = Inr (Yield b)"
  shows "\<exists>p data w'. send E (ScanCommand p) w = (Inr data, w')
           \<and> decode_page E data = Inr b
           \<and> snd (findAll_next E g w) = (Suspended p data, w')"
proof -
  have "\<exists>p. findAll_next E g w = scan_page E p w"
    using assms by (cases g) (auto simp add: Let_def split: option.splits)
  then obtain p where p: "findAll_next E g w = scan_page E p w" by blast
  show ?thesis
  proof (cases rule: scan_page_cases[of E p w])
    case (failed m w')
    with p assms show ?thesis by simp
  next
    case (undecodable data m w')
    with p assms show ?thesis by simp
  next
    case (yielded data items w')
    with p assms show ?thesis by auto
  qed
qed


section \<open>Upsert validation\<close>

text \<open>
  C1 (as amended). An item whose fields are exactly the key fields (the partition key and,
  if given, the sort key) is not rejected by \<^verbatim>\<open>insertOrUpdate\<close>: the call is exactly one
  \<^verbatim>\<open>UpdateItemCommand\<close> sent to the store, with \<^verbatim>\<open>ReturnValues: 'ALL_NEW'\<close> and no
  update expression, no attribute names and no attribute values; its outcome is the store's
  answer, so it is never an error raised by the module itself. The \<^verbatim>\<open>Key\<close> of the
  request holds the partition-key value as \<^verbatim>\<open>{ S: value }\<close>, and the sort-key value
  likewise as a second property when the sort key is a non-empty name other than the
  partition key's and other than \<^verbatim>\<open>__proto__\<close> (the assignment of line 41 creates no
  property of that name); an array index is listed first.
\<close>

theorem insertOrUpdate_key_only_sends:
  assumes "set (Object_keys item) = {pk} \<union> set_option sk"
  shows "insertOrUpdate E tableName pk item sk w =
           send E (UpdateItemCommand
             \<lparr>TableName = tableName,
              Key = Some (case sk of
                  None \<Rightarrow> [(pk, JObj [(''S'', property_value (get_property item pk))])]
                | Some s \<Rightarrow>
                    if s = [] \<or> s = pk \<or> s = ''__proto__''
                    then [(pk, JObj [(''S'', property_value (get_property item pk))])]
                    else (case array_index s of
                        None \<Rightarrow> [(pk, JObj [(''S'', property_value (get_property item pk))]),
                                 (s, JObj [(''S'', property_value (get_property item s))])]
                      | Some n \<Rightarrow>
                          (case array_index pk of
                             None \<Rightarrow>
                               [(s, JObj [(''S'', property_value (get_property item s))]),
                                (pk, JObj [(''S'', property_value (get_property item pk))])]
                           | Some m \<Rightarrow>
                               if m < n
                               then [(pk, JObj [(''S'', property_value (get_property item pk))]),
                                     (s, JObj [(''S'', property_value (get_property item s))])]
                               else [(s, JObj [(''S'', property_value (get_property item s))]),
                                     (pk, JObj [(''S'', property_value (get_property item pk))])]))),
              ReturnValues = Some ''ALL_NEW'', UpdateExpression = None,
              KeyConditionExpression = None, FilterExpression = None,
              ExpressionAttributeNames = None, ExpressionAttributeValues = None,
              Limit = None, ExclusiveStartKey = None\<rparr>) w
         \<and> length (requests (snd (insertOrUpdate E tableName pk item sk w)))
             = Suc (length (requests w))
         \<and> fst (insertOrUpdate E tableName pk item sk w) \<noteq> Inl (Error msg)"
proof -
  have ne: "item \<noteq> []" using assms by (auto simp add: Object_keys_def)
  have sub: "set (Object_keys item) \<subseteq> {pk} \<union> set_option sk" using assms by simp
  have eq: "insertOrUpdate E tableName pk item sk w =
     send E (UpdateItemCommand ((table_params tableName)
        \<lparr>Key := Some (case sk of
                        None \<Rightarrow> [(pk, attr_S (property_value (get_property item pk)))]
                      | Some s \<Rightarrow>
                          if s \<noteq> []
                          then assign_property
                                 [(pk, attr_S (property_value (get_property item pk)))]
                                 s (attr_S (property_value (get_property item s)))
                          else [(pk, attr_S (property_value (get_property item pk)))]),
         ReturnValues := Some ''ALL_NEW''\<rparr>)) w"
    using ne sub by (rule insertOrUpdate_only_keys)
  show ?thesis
    unfolding eq upsert_key_explicit
    by (simp add: send_requests send_not_Error table_params_def)
qed

text \<open>
  The item \<^verbatim>\<open>{id: "1", sort: "x"}\<close> with partition key \<^verbatim>\<open>id\<close> and sort key
  \<^verbatim>\<open>sort\<close>.
\<close>

theorem insertOrUpdate_key_only_sends_witness:
  "set (Object_keys [(''id'', JStr ''1'' :: int jsval), (''sort'', JStr ''x'')])
     = {''id''} \<union> set_option (Some ''sort'')
   \<and> requests (snd (insertOrUpdate (example_env []) ''t'' ''id''
                     [(''id'', JStr ''1''), (''sort'', JStr ''x'')] (Some ''sort'')
                     example_world))
     = [(ddbDocClient example_world, UpdateItemCommand
           \<lparr>TableName = ''t'',
            Key = Some [(''id'', JObj [(''S'', JStr ''1'')]),
                        (''sort'', JObj [(''S'', JStr ''x'')])],
            ReturnValues = Some ''ALL_NEW'', UpdateExpression = None,
            KeyConditionExpression = None, FilterExpression = None,
            ExpressionAttributeNames = None, ExpressionAttributeValues = None,
            Limit = None, ExclusiveStartKey = None\<rparr>)]
   \<and> fst (insertOrUpdate (example_env []) ''t'' ''id''
            [(''id'', JStr ''1''), (''sort'', JStr ''x'')] (Some ''sort'') example_world)
        \<noteq> Inl (Error ''No partition key is found'')"
proof -
  have h: "set (Object_keys [(''id'', JStr ''1'' :: int jsval), (''sort'', JStr ''x'')])
             = {''id''} \<union> set_option (Some ''sort'')"
    by (auto simp add: Object_keys_def)
  have r: "requests example_world = []"
    by (simp add: example_world_def module_init_def Let_def)
  have a: "array_index ''sort'' = None"
    by (simp add: array_index_def digit_value_def)
  note t = insertOrUpdate_key_only_sends[OF h, where E = "example_env []"
             and tableName = "''t''" and w = example_world
             and msg = "''No partition key is found''"]
  have "requests (snd (insertOrUpdate (example_env []) ''t'' ''id''
                     [(''id'', JStr ''1''), (''sort'', JStr ''x'')] (Some ''sort'')
                     example_world))
     = [(ddbDocClient example_world, UpdateItemCommand
           \<lparr>TableName = ''t'',
            Key = Some [(''id'', JObj [(''S'', JStr ''1'')]),
                        (''sort'', JObj [(''S'', JStr ''x'')])],
            ReturnValues = Some ''ALL_NEW'', UpdateExpression = None,
            KeyConditionExpression = None, FilterExpression = None,
            ExpressionAttributeNames = None, ExpressionAttributeValues = None,
            Limit = None, ExclusiveStartKey = None\<rparr>)]"
    using t[THEN conjunct1] r a by (simp add: send_requests get_property_def)
  with h t show ?thesis by blast
qed

text \<open>
  The claim as stated fails: with partition key \<^verbatim>\<open>id\<close> and the item
  \<^verbatim>\<open>{id: "1"}\<close>, which has only its key field, the call raises nothing; it returns the
  store's answer, and one \<^verbatim>\<open>UpdateItemCommand\<close> without an update expression has been
  sent.
\<close>

theorem insertOrUpdate_key_only_counterexample:
  "insertOrUpdate
     (example_env [Inr (Some \<lparr>Items = None, LastEvaluatedKey = None,
                              Attributes = Some [(''id'', attr_S (JStr ''1''))]\<rparr>)])
     ''t'' ''id'' [(''id'', JStr ''1'')] None example_world
   = (Inr (Some \<lparr>Items = None, LastEvaluatedKey = None,
                  Attributes = Some [(''id'', attr_S (JStr ''1''))]\<rparr>),
      example_world
        \<lparr>backend := 1,
         requests :=
           [(\<lparr>region = Some ''eu-west-1'', credentials = None\<rparr>,
             UpdateItemCommand
               \<lparr>TableName = ''t'', Key = Some [(''id'', attr_S (JStr ''1''))],
                ReturnValues = Some ''ALL_NEW'', UpdateExpression = None,
                KeyConditionExpression = None, FilterExpression = None,
                ExpressionAttributeNames = None, ExpressionAttributeValues = None,
                Limit = None, ExclusiveStartKey = None\<rparr>)]\<rparr>)"
  by (simp add: insertOrUpdate_def non_key_fields_def Object_keys_def Let_def table_params_def
        get_property_def send_def example_env_def paged_store_def lift_sdk_def
        example_world_def module_init_def)

text \<open>
  C9. \<^verbatim>\<open>insertOrUpdate\<close> raises its validation error, with the message
  \<^verbatim>\<open>No partition key is found\<close> and before anything is sent, exactly when the item has
  neither the partition-key field nor the sort-key field; no other failure of the call is
  an \<^verbatim>\<open>Error\<close> of the module. An item that is not empty and has only key fields passes
  the check: one \<^verbatim>\<open>UpdateItemCommand\<close> is issued, and it has no update expression.
\<close>

theorem insertOrUpdate_validation:
  "(insertOrUpdate E tableName pk item sk w = (Inl (Error ''No partition key is found''), w)
      \<longleftrightarrow> pk \<notin> set (Object_keys item) \<and> (\<forall>s. sk = Some s \<longrightarrow> s \<notin> set (Object_keys item)))
   \<and> (fst (insertOrUpdate E tableName pk item sk w) = Inl (Error msg)
      \<longrightarrow> insertOrUpdate E tableName pk item sk w
            = (Inl (Error ''No partition key is found''), w))
   \<and> (item \<noteq> [] \<and> set (Object_keys item) \<subseteq> {pk} \<union> set_option sk
      \<longrightarrow> (\<exists>p. requests (snd (insertOrUpdate E tableName pk item sk w))
                 = requests w @ [(ddbDocClient w, UpdateItemCommand p)]
               \<and> UpdateExpression p = None))"
proof (intro conjI impI)
  show "insertOrUpdate E tableName pk item sk w = (Inl (Error ''No partition key is found''), w)
      \<longleftrightarrow> pk \<notin> set (Object_keys item) \<and> (\<forall>s. sk = Some s \<longrightarrow> s \<notin> set (Object_keys item))"
    by (rule upsert_rejects_iff)
next
  assume "fst (insertOrUpdate E tableName pk item sk w) = Inl (Error msg)"
  then show "insertOrUpdate E tableName pk item sk w
            = (Inl (Error ''No partition key is found''), w)"
    using send_not_Error[of E _ w msg]
    by (auto simp add: insertOrUpdate_def Let_def lift_sdk_def
             split: sum.splits option.splits if_splits)
next
  assume a: "item \<noteq> [] \<and> set (Object_keys item) \<subseteq> {pk} \<union> set_option sk"
  show "\<exists>p. requests (snd (insertOrUpdate E tableName pk item sk w))
                 = requests w @ [(ddbDocClient w, UpdateItemCommand p)]
               \<and> UpdateExpression p = None"
    using a by (simp add: insertOrUpdate_only_keys send_requests table_params_def)
qed

theorem insertOrUpdate_validation_witness:
  "insertOrUpdate (example_env []) ''t'' ''id'' [(''name'', JStr ''a'')] (Some ''sort'')
       example_world = (Inl (Error ''No partition key is found''), example_world)
   \<and> [(''id'', JStr ''1'')] \<noteq> ([] :: int obj)
   \<and> set (Object_keys [(''id'', JStr ''1'' :: int jsval)]) \<subseteq> {''id''} \<union> set_option None
   \<and> (\<exists>p. requests (snd (insertOrUpdate (example_env []) ''t'' ''id''
                              [(''id'', JStr ''1'')] None example_world))
             = requests example_world @ [(ddbDocClient example_world, UpdateItemCommand p)]
           \<and> UpdateExpression p = None)"
  using insertOrUpdate_validation[of "example_env []" "''t''" "''id''"
          "[(''name'', JStr ''a'')]" "Some ''sort''" example_world "''x''"]
        insertOrUpdate_validation[of "example_env []" "''t''" "''id''"
          "[(''id'', JStr ''1'')]" None example_world "''x''"]
  by (simp add: Object_keys_def)

section \<open>Key and filter values\<close>

text \<open>
  C10. Whenever \<^verbatim>\<open>insertOrUpdate\<close> sends its request, every property of the \<^verbatim>\<open>Key\<close>
  of the request is an object \<^verbatim>\<open>{ S: value }\<close>, the string attribute type, whatever the
  value is: the partition key holds the item's partition-key value, and the sort key, when
  it is a non-empty name other than the partition key's, holds the item's sort-key value.
  The one name the assignment \<^verbatim>\<open>params.Key[sk] = ...\<close> cannot create is
  \<^verbatim>\<open>__proto__\<close>: for that sort key the \<^verbatim>\<open>Key\<close> holds the partition key alone. An
  array index is listed first. \<^verbatim>\<open>deleteOne\<close> sends the key value it was given as
  \<^verbatim>\<open>{ S: value }\<close>, and \<^verbatim>\<open>findManyByField\<close> sends its filter value as
  \<^verbatim>\<open>{ S: value }\<close>. The value is an arbitrary JavaScript value in all three: nothing
  inspects its run-time type.
\<close>

theorem key_and_filter_values_typed_S:
  "(requests (snd (insertOrUpdate E tableName pk item sk w)) = requests w
    \<or> (\<exists>p. requests (snd (insertOrUpdate E tableName pk item sk w))
              = requests w @ [(ddbDocClient w, UpdateItemCommand p)]
          \<and> Key p = Some (case sk of
                None \<Rightarrow> [(pk, JObj [(''S'', property_value (get_property item pk))])]
              | Some s \<Rightarrow>
                  if s = [] \<or> s = pk \<or> s = ''__proto__''
                  then [(pk, JObj [(''S'', property_value (get_property item pk))])]
                  else (case array_index s of
                      None \<Rightarrow> [(pk, JObj [(''S'', property_value (get_property item pk))]),
                               (s, JObj [(''S'', property_value (get_property item s))])]
                    | Some n \<Rightarrow>
                        (case array_index pk of
                           None \<Rightarrow>
                             [(s, JObj [(''S'', property_value (get_property item s))]),
                              (pk, JObj [(''S'', property_value (get_property item pk))])]
                         | Some m \<Rightarrow>
                             if m < n
                             then [(pk, JObj [(''S'', property_value (get_property item pk))]),
                                   (s, JObj [(''S'', property_value (get_property item s))])]
                             else [(s, JObj [(''S'', property_value (get_property item s))]),
                                   (pk, JObj [(''S'', property_value (get_property item pk))])])))))
   \<and> (\<exists>p. requests (snd (deleteOne E tableName pk v w))
              = requests w @ [(ddbDocClient w, DeleteItemCommand p)]
          \<and> Key p = Some [(pk, JObj [(''S'', v)])])
   \<and> (\<exists>p. requests (snd (findManyByField E tableName field v w))
              = requests w @ [(ddbDocClient w, ScanCommand p)]
          \<and> FilterExpression p = Some (field @ '' = :u'')
          \<and> ExpressionAttributeValues p = Some [('':u'', JObj [(''S'', v)])])"
proof (intro conjI)
  show "requests (snd (insertOrUpdate E tableName pk item sk w)) = requests w
    \<or> (\<exists>p. requests (snd (insertOrUpdate E tableName pk item sk w))
              = requests w @ [(ddbDocClient w, UpdateItemCommand p)]
          \<and> Key p = Some (case sk of
                None \<Rightarrow> [(pk, JObj [(''S'', property_value (get_property item pk))])]
              | Some s \<Rightarrow>
                  if s = [] \<or> s = pk \<or> s = ''__proto__''
                  then [(pk, JObj [(''S'', property_value (get_property item pk))])]
                  else (case array_index s of
                      None \<Rightarrow> [(pk, JObj [(''S'', property_value (get_property item pk))]),
                               (s, JObj [(''S'', property_value (get_property item s))])]
                    | Some n \<Rightarrow>
                        (case array_index pk of
                           None \<Rightarrow>
                             [(s, JObj [(''S'', property_value (get_property item s))]),
                              (pk, JObj [(''S'', property_value (get_property item pk))])]
                         | Some m \<Rightarrow>
                             if m < n
                             then [(pk, JObj [(''S'', property_value (get_property item pk))]),
                                   (s, JObj [(''S'', property_value (get_property item s))])]
                             else [(s, JObj [(''S'', property_value (get_property item s))]),
                                   (pk, JObj [(''S'', property_value (get_property item pk))])]))))"
    using insertOrUpdate_sent[of E tableName pk item sk w]
    unfolding upsert_key_explicit .
next
  show "\<exists>p. requests (snd (deleteOne E tableName pk v w))
              = requests w @ [(ddbDocClient w, DeleteItemCommand p)]
          \<and> Key p = Some [(pk, JObj [(''S'', v)])]"
    by (simp add: deleteOne_def Let_def send_requests attr_S_def)
next
  have "snd (findManyByField E tableName field v w)
          = snd (send E (ScanCommand ((table_params tableName)
            \<lparr>FilterExpression := Some (field @ '' = :u''),
             ExpressionAttributeValues := Some [('':u'', attr_S v)]\<rparr>)) w)"
    by (simp add: findManyByField_def Let_def split: prod.splits sum.splits option.splits)
  then show "\<exists>p. requests (snd (findManyByField E tableName field v w))
              = requests w @ [(ddbDocClient w, ScanCommand p)]
          \<and> FilterExpression p = Some (field @ '' = :u'')
          \<and> ExpressionAttributeValues p = Some [('':u'', JObj [(''S'', v)])]"
    by (simp add: send_requests attr_S_def)
qed

text \<open>
  A number as partition key and a boolean as sort key are both sent under \<^verbatim>\<open>S\<close>; with
  the sort key \<^verbatim>\<open>__proto__\<close> the \<^verbatim>\<open>Key\<close> holds the partition key alone; the sort key
  \<^verbatim>\<open>2\<close> is listed before the partition key \<^verbatim>\<open>id\<close>; \<^verbatim>\<open>deleteOne\<close> and
  \<^verbatim>\<open>findManyByField\<close> send a number under \<^verbatim>\<open>S\<close>.
\<close>

theorem key_and_filter_values_typed_S_witness:
  "requests (snd (insertOrUpdate (example_env []) ''t'' ''id''
       [(''id'', JNum 7), (''sort'', JBool True), (''name'', JStr ''a'')] (Some ''sort'')
       example_world))
   = [(ddbDocClient example_world, UpdateItemCommand
        \<lparr>TableName = ''t'',
         Key = Some [(''id'', JObj [(''S'', JNum 7)]), (''sort'', JObj [(''S'', JBool True)])],
         ReturnValues = Some ''ALL_NEW'', UpdateExpression = Some ''SET #field0 = :value0'',
         KeyConditionExpression = None, FilterExpression = None,
         ExpressionAttributeNames = Some [(''#field0'', ''name'')],
         ExpressionAttributeValues = Some [('':value0'', JObj [(''S'', JStr ''a'')])],
         Limit = None, ExclusiveStartKey = None\<rparr>)]
   \<and> (\<exists>p. requests (snd (insertOrUpdate (example_env []) ''t'' ''id''
              [(''id'', JStr ''1''), (''__proto__'', JStr ''x'')] (Some ''__proto__'')
              example_world))
              = [(ddbDocClient example_world, UpdateItemCommand p)]
          \<and> Key p = Some [(''id'', JObj [(''S'', JStr ''1'')])])
   \<and> (\<exists>p. requests (snd (insertOrUpdate (example_env []) ''t'' ''id''
              [(''2'', JStr ''x''), (''id'', JStr ''1'')] (Some ''2'') example_world))
              = [(ddbDocClient example_world, UpdateItemCommand p)]
          \<and> Key p = Some [(''2'', JObj [(''S'', JStr ''x'')]),
                           (''id'', JObj [(''S'', JStr ''1'')])])
   \<and> (\<exists>p. requests (snd (deleteOne (example_env []) ''t'' ''id'' (JNum 7) example_world))
              = [(ddbDocClient example_world, DeleteItemCommand p)]
          \<and> Key p = Some [(''id'', JObj [(''S'', JNum 7)])])
   \<and> (\<exists>p. requests (snd (findManyByField (example_env []) ''t'' ''age'' (JNum 7)
                               example_world))
              = [(ddbDocClient example_world, ScanCommand p)]
          \<and> ExpressionAttributeValues p = Some [('':u'', JObj [(''S'', JNum 7)])])"
proof -
  have r: "requests example_world = []"
    by (simp add: example_world_def module_init_def Let_def)
  have ai: "array_index ''sort'' = None" "array_index ''id'' = None"
    "array_index ''2'' = Some 2"
    by (simp_all add: array_index_def digit_value_def digit_def)
  have first: "requests (snd (insertOrUpdate (example_env []) ''t'' ''id''
       [(''id'', JNum 7), (''sort'', JBool True), (''name'', JStr ''a'')] (Some ''sort'')
       example_world))
   = [(ddbDocClient example_world, UpdateItemCommand
        \<lparr>TableName = ''t'',
         Key = Some [(''id'', JObj [(''S'', JNum 7)]), (''sort'', JObj [(''S'', JBool True)])],
         ReturnValues = Some ''ALL_NEW'', UpdateExpression = Some ''SET #field0 = :value0'',
         KeyConditionExpression = None, FilterExpression = None,
         ExpressionAttributeNames = Some [(''#field0'', ''name'')],
         ExpressionAttributeValues = Some [('':value0'', JObj [(''S'', JStr ''a'')])],
         Limit = None, ExclusiveStartKey = None\<rparr>)]"
    using ai
    by (simp add: insertOrUpdate_def non_key_fields_def Object_keys_def Let_def table_params_def
          get_property_def send_def example_env_def paged_store_def lift_sdk_def
          example_world_def module_init_def field_values_def field_names_def set_expression_def
          enumerate_eq_zip Object_prototype_def digit_def assign_property_def attr_S_def)
  have sent1: "requests (snd (insertOrUpdate (example_env []) ''t'' ''id''
              [(''id'', JStr ''1''), (''__proto__'', JStr ''x'')] (Some ''__proto__'')
              example_world)) \<noteq> requests example_world"
    by (simp add: insertOrUpdate_def non_key_fields_def Object_keys_def Let_def send_requests)
  have sent2: "requests (snd (insertOrUpdate (example_env []) ''t'' ''id''
              [(''2'', JStr ''x''), (''id'', JStr ''1'')] (Some ''2'') example_world))
               \<noteq> requests example_world"
    by (simp add: insertOrUpdate_def non_key_fields_def Object_keys_def Let_def send_requests)
  note t1 = key_and_filter_values_typed_S[of "example_env []" "''t''" "''id''"
      "[(''id'', JStr ''1''), (''__proto__'', JStr ''x'')]" "Some ''__proto__''"
      example_world "JNum 7" "''age''"]
  note t2 = key_and_filter_values_typed_S[of "example_env []" "''t''" "''id''"
      "[(''2'', JStr ''x''), (''id'', JStr ''1'')]" "Some ''2''"
      example_world "JNum 7" "''age''"]
  have k1: "\<exists>p. requests (snd (insertOrUpdate (example_env []) ''t'' ''id''
              [(''id'', JStr ''1''), (''__proto__'', JStr ''x'')] (Some ''__proto__'')
              example_world))
              = [(ddbDocClient example_world, UpdateItemCommand p)]
          \<and> Key p = Some [(''id'', JObj [(''S'', JStr ''1'')])]"
    using t1[THEN conjunct1] sent1 r by (simp add: get_property_def)
  have k2: "\<exists>p. requests (snd (insertOrUpdate (example_env []) ''t'' ''id''
              [(''2'', JStr ''x''), (''id'', JStr ''1'')] (Some ''2'') example_world))
              = [(ddbDocClient example_world, UpdateItemCommand p)]
          \<and> Key p = Some [(''2'', JObj [(''S'', JStr ''x'')]),
                           (''id'', JObj [(''S'', JStr ''1'')])]"
    using t2[THEN conjunct1] sent2 r ai by (simp add: get_property_def)
  have k3: "\<exists>p. requests (snd (deleteOne (example_env []) ''t'' ''id'' (JNum 7) example_world))
              = [(ddbDocClient example_world, DeleteItemCommand p)]
          \<and> Key p = Some [(''id'', JObj [(''S'', JNum 7)])]"
    using t1[THEN conjunct2, THEN conjunct1] r by simp
  have k4: "\<exists>p. requests (snd (findManyByField (example_env []) ''t'' ''age'' (JNum 7)
                               example_world))
              = [(ddbDocClient example_world, ScanCommand p)]
          \<and> ExpressionAttributeValues p = Some [('':u'', JObj [(''S'', JNum 7)])]"
    using t1[THEN conjunct2, THEN conjunct2] r by auto
  from first k1 k2 k3 k4 show ?thesis by blast
qed

section \<open>The update built for a concrete item\<close>



section \<open>The range scan\<close>




section \<open>Empty result sets\<close>

text \<open>
  C5. When the store answers with a response whose \<^verbatim>\<open>Items\<close> is missing or empty,
  \<^verbatim>\<open>findOne\<close> returns \<^verbatim>\<open>null\<close> (\<open>None\<close>), and \<^verbatim>\<open>findMany\<close>,
  \<^verbatim>\<open>findManyByField\<close>, \<^verbatim>\<open>findManyPlain\<close> and \<^verbatim>\<open>findWithin\<close> return the empty
  list, as does \<^verbatim>\<open>findOperated\<close> whenever it got as far as sending its scan. When
  \<^verbatim>\<open>Items\<close> is not empty, \<^verbatim>\<open>findOne\<close> returns its first element.
\<close>

theorem empty_result_sets:
  assumes ans: "\<forall>cmd. fst (store E (backend w) (ddbDocClient w) cmd) = Inr (Some d)"
  shows "(Items d = None \<or> Items d = Some [] \<longrightarrow>
            fst (findOne E tableName pk pkValue w) = Inr None
          \<and> fst (findMany E tableName pk pkValue w) = Inr []
          \<and> fst (findManyByField E tableName field v w) = Inr []
          \<and> fst (findManyPlain E tableName filterExpression expressionAttributeValues w) = Inr []
          \<and> (fst (findOperated E tableName filter_obj operators w) = Inr []
              \<or> requests (snd (findOperated E tableName filter_obj operators w)) = requests w)
          \<and> fst (findWithin E tableName key start end_v w) = Inr [])
       \<and> (\<forall>x xs. Items d = Some (x # xs) \<longrightarrow>
            fst (findOne E tableName pk pkValue w) = Inr (Some x))"
proof -
  have snd_ok: "\<exists>w'. send E cmd w = (Inr (Some d), w')" for cmd
  proof -
    obtain w' where
      "send E cmd w = (lift_sdk (fst (store E (backend w) (ddbDocClient w) cmd)), w')"
      by (rule send_cases)
    then show ?thesis using ans by (simp add: lift_sdk_def)
  qed
  have one: "fst (findOne E tableName pk pkValue w) = Inr None"
    if "Items d = None \<or> Items d = Some []"
    using that snd_ok[of "QueryCommand (query_params tableName pk pkValue)"]
    by (auto simp add: findOne_def read_Items_def)
  have many: "fst (findMany E tableName pk pkValue w) = Inr []"
    if "Items d = None \<or> Items d = Some []"
    using that snd_ok[of "QueryCommand (query_params tableName pk pkValue)"]
    by (auto simp add: findMany_def read_Items_def)
  have byfield: "fst (findManyByField E tableName field v w) = Inr []"
    if "Items d = None \<or> Items d = Some []"
    using that snd_ok[of "ScanCommand ((table_params tableName)
            \<lparr>FilterExpression := Some (field @ '' = :u''),
             ExpressionAttributeValues := Some [('':u'', attr_S v)]\<rparr>)"]
    by (auto simp add: findManyByField_def read_Items_def Let_def)
  have plain: "fst (findManyPlain E tableName filterExpression expressionAttributeValues w)
                 = Inr []"
    if "Items d = None \<or> Items d = Some []"
    using that snd_ok[of "ScanCommand ((table_params tableName)
            \<lparr>FilterExpression := Some filterExpression,
             ExpressionAttributeValues := Some expressionAttributeValues\<rparr>)"]
    by (auto simp add: findManyPlain_def read_Items_def Let_def)
  have within: "fst (findWithin E tableName key start end_v w) = Inr []"
    if "Items d = None \<or> Items d = Some []"
    using that snd_ok[of "ScanCommand ((table_params tableName)
            \<lparr>FilterExpression := Some (key @ '' BETWEEN :start AND :end''),
             ExpressionAttributeValues :=
               Some [('':start'', attr_N (Number_toString E start)),
                     ('':end'', attr_N (Number_toString E end_v))]\<rparr>)"]
    by (auto simp add: findWithin_def Let_def decode_page_empty)
  have operated: "fst (findOperated E tableName filter_obj operators w) = Inr []
       \<or> requests (snd (findOperated E tableName filter_obj operators w)) = requests w"
    if e: "Items d = None \<or> Items d = Some []"
  proof (cases "check_filter filter_obj operators (Object_keys filter_obj)")
    case (Some err)
    then show ?thesis by (simp add: findOperated_def Let_def)
  next
    case None
    show ?thesis
    proof (cases "marshall E False (field_values filter_obj (Object_keys filter_obj))")
      case (Inl m)
      then show ?thesis using None by (simp add: findOperated_def Let_def lift_sdk_def)
    next
      case (Inr vs)
      then show ?thesis
        using None e snd_ok[of "ScanCommand ((table_params tableName)
            \<lparr>FilterExpression := Some (operated_expression operators (Object_keys filter_obj)),
             ExpressionAttributeNames := Some (field_names (Object_keys filter_obj)),
             ExpressionAttributeValues := Some vs\<rparr>)"]
        by (auto simp add: findOperated_def Let_def lift_sdk_def decode_page_empty)
    qed
  qed
  have first: "fst (findOne E tableName pk pkValue w) = Inr (Some x)"
    if "Items d = Some (x # xs)" for x xs
    using that snd_ok[of "QueryCommand (query_params tableName pk pkValue)"]
    by (auto simp add: findOne_def read_Items_def)
  show ?thesis using one many byfield plain within operated first by blast
qed

theorem empty_result_sets_witness:
  "Items empty_page = Some []
   \<and> fst (findOne (example_env [Inr (Some empty_page)]) ''t'' ''id'' (JStr ''1'') example_world)
       = Inr None
   \<and> fst (findMany (example_env [Inr (Some empty_page)]) ''t'' ''id'' (JStr ''1'') example_world)
       = Inr []
   \<and> fst (findManyByField (example_env [Inr (Some empty_page)]) ''t'' ''name'' (JStr ''a'')
            example_world) = Inr []
   \<and> fst (findManyPlain (example_env [Inr (Some empty_page)]) ''t'' ''age > :a''
            [('':a'', attr_N ''3'')] example_world) = Inr []
   \<and> fst (findOperated (example_env [Inr (Some empty_page)]) ''t'' [(''age'', JNum 3)]
            [(''age'', ''>'')] example_world) = Inr []
   \<and> fst (findWithin (example_env [Inr (Some empty_page)]) ''t'' ''age'' 1 2 example_world)
       = Inr []
   \<and> fst (findOne (example_env [Inr (Some last_page)]) ''t'' ''id'' (JStr ''2'') example_world)
       = Inr (Some (JObj [(''id'', attr_S (JStr ''2'')), (''age'', attr_N ''41'')]))"
proof -
  let ?E = "example_env [Inr (Some empty_page)]"
  have a0: "\<forall>cmd. fst (store ?E (backend example_world) (ddbDocClient example_world) cmd)
                  = Inr (Some empty_page)"
    by (simp add: example_env_def paged_store_def example_world_def module_init_def Let_def)
  have a1: "\<forall>cmd. fst (store (example_env [Inr (Some last_page)]) (backend example_world)
                         (ddbDocClient example_world) cmd) = Inr (Some last_page)"
    by (simp add: example_env_def paged_store_def example_world_def module_init_def Let_def)
  have e: "Items empty_page = Some []" by (simp add: empty_page_def)
  have l: "Items last_page = Some [JObj [(''id'', attr_S (JStr ''2'')), (''age'', attr_N ''41'')]]"
    by (simp add: last_page_def)
  have sent: "requests (snd (findOperated ?E ''t'' [(''age'', JNum 3)] [(''age'', ''>'')]
                               example_world)) \<noteq> requests example_world"
    by (auto simp add: findOperated_def Object_keys_def Let_def get_property_def
          field_values_def example_env_def lift_sdk_def
          dest: send_result_requests split: prod.splits sum.splits)
  note t0 = empty_result_sets[OF a0, where tableName = "''t''" and pk = "''id''"
              and pkValue = "JStr ''1''" and field = "''name''" and v = "JStr ''a''"
              and filterExpression = "''age > :a''"
              and expressionAttributeValues = "[('':a'', attr_N ''3'')]"
              and filter_obj = "[(''age'', JNum 3)]" and operators = "[(''age'', ''>'')]"
              and key = "''age''" and start = 1 and end_v = 2,
              THEN conjunct1, rule_format]
  note t1 = empty_result_sets[OF a1, where tableName = "''t''" and pk = "''id''"
              and pkValue = "JStr ''2''", THEN conjunct2, rule_format, OF l]
  show ?thesis using e sent t0 t1 by simp
qed

section \<open>The validation of operated scans\<close>

text \<open>
  C6. The check \<^verbatim>\<open>!operators[k]\<close> reads the operators map through its prototype chain.
  For the filter \<^verbatim>\<open>{constructor: "x"}\<close> and the empty operators map \<^verbatim>\<open>{}\<close>, the field
  \<^verbatim>\<open>constructor\<close> has no entry in the operators map, yet \<^verbatim>\<open>operators["constructor"]\<close>
  is the inherited function \<^verbatim>\<open>Object\<close>, which is truthy: nothing is raised, and a
  \<^verbatim>\<open>ScanCommand\<close> is sent whose filter expression holds the text of that function in
  place of an operator.
\<close>

theorem findOperated_inherited_operator:
  "findOperated (example_env [Inr (Some empty_page)])
     ''t'' [(''constructor'', JStr ''x'')] [] example_world
   = (Inr [],
      example_world
        \<lparr>backend := 1,
         requests :=
           [(\<lparr>region = Some ''eu-west-1'', credentials = None\<rparr>,
             ScanCommand
               \<lparr>TableName = ''t'', Key = None, ReturnValues = None, UpdateExpression = None,
                KeyConditionExpression = None,
                FilterExpression =
                  Some ''#field0 function Object() { [native code] } :value0'',
                ExpressionAttributeNames = Some [(''#field0'', ''constructor'')],
                ExpressionAttributeValues = Some [('':value0'', attr_S (JStr ''x''))],
                Limit = None, ExclusiveStartKey = None\<rparr>)]\<rparr>)"
  by (simp add: findOperated_def Object_keys_def Let_def table_params_def
        get_property_def Object_prototype_def send_def example_env_def paged_store_def
        lift_sdk_def example_world_def module_init_def field_values_def field_names_def
        operated_expression_def enumerate_eq_zip digit_def decode_page_def empty_page_def)

section \<open>Changing the configuration\<close>

text \<open>
  C2. The module is loaded with \<^verbatim>\<open>REGION=eu-west-1\<close>; then \<^verbatim>\<open>setRegion('us-east-1')\<close>
  is called; then \<^verbatim>\<open>deleteOne\<close>. The module variable \<^verbatim>\<open>ddbClient\<close> now refers to a
  client for \<^verbatim>\<open>us-east-1\<close>, but the request is sent by the client configured for
  \<^verbatim>\<open>eu-west-1\<close>, the one \<^verbatim>\<open>ddbDocClient\<close> has wrapped since the module was loaded.
\<close>

theorem setRegion_not_seen:
  "ddbClient (setRegion ''us-east-1'' example_world)
     = \<lparr>region = Some ''us-east-1'', credentials = None\<rparr>
   \<and> requests (snd (deleteOne (example_env []) ''t'' ''id'' (JStr ''1'')
                       (setRegion ''us-east-1'' example_world)))
     = [(\<lparr>region = Some ''eu-west-1'', credentials = None\<rparr>,
         DeleteItemCommand
           \<lparr>TableName = ''t'', Key = Some [(''id'', attr_S (JStr ''1''))],
            ReturnValues = None, UpdateExpression = None,
            KeyConditionExpression = None, FilterExpression = None,
            ExpressionAttributeNames = None, ExpressionAttributeValues = None,
            Limit = None, ExclusiveStartKey = None\<rparr>)]"
  by (simp add: deleteOne_def setRegion_def send_def example_env_def paged_store_def
        example_world_def module_init_def Let_def table_params_def)

section \<open>The paginated scan\<close>

text \<open>
  C3. When a call of \<^verbatim>\<open>next()\<close> on a \<^verbatim>\<open>findAll\<close> generator issues a scan request
  and the store rejects it, the call reports the end of the sequence, the generator is
  completed, the error has been written with \<^verbatim>\<open>console.log\<close>, and every later
  \<^verbatim>\<open>next()\<close> reports the end again. No call of \<^verbatim>\<open>next()\<close>, in any state and with any
  store, ever rejects.
\<close>

theorem findAll_swallows_errors:
  assumes issued: "requests (snd (snd (findAll_next E g w))) = requests w @ [(c, cmd)]"
    and rejects: "fst (store E (backend w) (ddbDocClient w) cmd) = Inl m"
  shows "(\<exists>w'. findAll_next E g w = (Inr Done, Completed, w')
              \<and> console w' = console w @ [SdkError m]
              \<and> (\<forall>n. fst (nexts n E Completed w') = replicate n (Inr Done)))
         \<and> (\<forall>n g0 w0 e. Inl e \<notin> set (fst (nexts n E g0 w0)))"
proof -
  from issued findAll_next_no_request[of E g w]
  obtain params where p: "findAll_next E g w = scan_page E params w" by auto
  with issued scan_page_requests[of E params w] have "cmd = ScanCommand params" by simp
  with rejects have "fst (store E (backend w) (ddbDocClient w) (ScanCommand params)) = Inl m"
    by simp
  from scan_page_failed[OF this] obtain w' where
    "scan_page E params w = (Inr Done, Completed, w')" "console w' = console w @ [SdkError m]"
    by auto
  with p have "\<exists>w'. findAll_next E g w = (Inr Done, Completed, w')
              \<and> console w' = console w @ [SdkError m]
              \<and> (\<forall>n. fst (nexts n E Completed w') = replicate n (Inr Done))"
    by (simp add: nexts_Completed)
  then show ?thesis using nexts_never_throw by blast
qed

theorem findAll_swallows_errors_witness:
  "fst (store (example_env []) (backend example_world) (ddbDocClient example_world)
         (ScanCommand ((table_params ''t'')\<lparr>Limit := Some 10\<rparr>)))
     = Inl ''ResourceNotFoundException''
   \<and> (\<exists>w'. findAll_next (example_env []) (findAll ''t'' None) example_world
               = (Inr Done, Completed, w')
            \<and> console w' = console example_world @ [SdkError ''ResourceNotFoundException''])"
proof -
  let ?cmd = "ScanCommand ((table_params ''t'')\<lparr>Limit := Some 10\<rparr>) :: int command"
  have i: "requests (snd (snd (findAll_next (example_env []) (findAll ''t'' None) example_world)))
             = requests example_world @ [(ddbDocClient example_world, ?cmd)]"
    by (simp add: findAll_def Let_def scan_page_requests table_params_def)
  have r: "fst (store (example_env []) (backend example_world) (ddbDocClient example_world) ?cmd)
             = Inl ''ResourceNotFoundException''"
    by (simp add: example_env_def paged_store_def)
  from findAll_swallows_errors[OF i r] r show ?thesis by blast
qed

text \<open>
  C4. Every request issued by a generator made by \<^verbatim>\<open>findAll(tableName, limit)\<close>, over
  any number of calls of \<^verbatim>\<open>next()\<close>, is a \<^verbatim>\<open>ScanCommand\<close> on that table whose
  \<^verbatim>\<open>Limit\<close> is the requested batch size (10 when none was given). A yielded batch has
  one element for each item of the page it decodes, so when the store returns at most
  \<open>k\<close> items to a scan with that limit, every yielded batch has at most \<open>k\<close> elements.
  A yielded batch is the decoding of the response just received, and the generator is then
  suspended with that response: the next call of \<^verbatim>\<open>next()\<close> reports the end
  of the sequence without any request when the response had no \<^verbatim>\<open>LastEvaluatedKey\<close>;
  when it had one, the call issues the next scan, starting at that key, and can then report
  the end only after logging an error.
\<close>

theorem findAll_pages:
  "(\<exists>new. requests (snd (snd (nexts n E (findAll tableName limit) w))) = requests w @ new
        \<and> (\<forall>x\<in>set new. \<exists>p. snd x = ScanCommand p \<and> TableName p = tableName
                \<and> Limit p = Some (case limit of None \<Rightarrow> 10 | Some l \<Rightarrow> l)))
   \<and> ((\<forall>s c p d items. fst (store E s c (ScanCommand p)) = Inr (Some d) \<and> Items d = Some items
           \<and> Limit p = Some (case limit of None \<Rightarrow> 10 | Some l \<Rightarrow> l) \<longrightarrow> length items \<le> k)
        \<longrightarrow> (\<forall>b. Inr (Yield b) \<in> set (fst (nexts n E (findAll tableName limit) w))
                \<longrightarrow> length b \<le> k))
   \<and> (\<forall>g w0 b. fst (findAll_next E g w0) = Inr (Yield b) \<longrightarrow>
         (\<exists>p data w1. send E (ScanCommand p) w0 = (Inr data, w1)
            \<and> decode_page E data = Inr b
            \<and> snd (findAll_next E g w0) = (Suspended p data, w1)
            \<and> (\<forall>d w2. data = Some d \<longrightarrow>
                  (LastEvaluatedKey d = None \<longrightarrow>
                     findAll_next E (Suspended p data) w2 = (Inr Done, Completed, w2))
                \<and> (\<forall>key. LastEvaluatedKey d = Some key \<longrightarrow>
                     requests (snd (snd (findAll_next E (Suspended p data) w2)))
                       = requests w2 @ [(ddbDocClient w2,
                                         ScanCommand (p\<lparr>ExclusiveStartKey := Some key\<rparr>))]
                   \<and> (fst (findAll_next E (Suspended p data) w2) = Inr Done \<longrightarrow>
                        (\<exists>e. console (snd (snd (findAll_next E (Suspended p data) w2)))
                               = console w2 @ [e]))))))"
proof (intro conjI)
  have inv: "gen_inv tableName (case limit of None \<Rightarrow> 10 | Some l \<Rightarrow> l)
               (findAll tableName limit)"
    by (simp add: findAll_def)
  show "\<exists>new. requests (snd (snd (nexts n E (findAll tableName limit) w))) = requests w @ new
        \<and> (\<forall>x\<in>set new. \<exists>p. snd x = ScanCommand p \<and> TableName p = tableName
                \<and> Limit p = Some (case limit of None \<Rightarrow> 10 | Some l \<Rightarrow> l))"
    by (rule nexts_requests[OF inv])
  show "(\<forall>s c p d items. fst (store E s c (ScanCommand p)) = Inr (Some d) \<and> Items d = Some items
           \<and> Limit p = Some (case limit of None \<Rightarrow> 10 | Some l \<Rightarrow> l) \<longrightarrow> length items \<le> k)
        \<longrightarrow> (\<forall>b. Inr (Yield b) \<in> set (fst (nexts n E (findAll tableName limit) w))
                \<longrightarrow> length b \<le> k)"
    using nexts_batches[OF _ inv] by blast
  show "\<forall>g w0 b. fst (findAll_next E g w0) = Inr (Yield b) \<longrightarrow>
         (\<exists>p data w1. send E (ScanCommand p) w0 = (Inr data, w1)
            \<and> decode_page E data = Inr b
            \<and> snd (findAll_next E g w0) = (Suspended p data, w1)
            \<and> (\<forall>d w2. data = Some d \<longrightarrow>
                  (LastEvaluatedKey d = None \<longrightarrow>
                     findAll_next E (Suspended p data) w2 = (Inr Done, Completed, w2))
                \<and> (\<forall>key. LastEvaluatedKey d = Some key \<longrightarrow>
                     requests (snd (snd (findAll_next E (Suspended p data) w2)))
                       = requests w2 @ [(ddbDocClient w2,
                                         ScanCommand (p\<lparr>ExclusiveStartKey := Some key\<rparr>))]
                   \<and> (fst (findAll_next E (Suspended p data) w2) = Inr Done \<longrightarrow>
                        (\<exists>e. console (snd (snd (findAll_next E (Suspended p data) w2)))
                               = console w2 @ [e])))))"
  proof (intro allI impI)
    fix g w0 b
    assume "fst (findAll_next E g w0) = Inr (Yield b)"
    from findAll_next_yield[OF this] obtain p data w1 where
      y: "send E (ScanCommand p) w0 = (Inr data, w1)"
         "decode_page E data = Inr b"
         "snd (findAll_next E g w0) = (Suspended p data, w1)" by blast
    have cont: "\<forall>d w2. data = Some d \<longrightarrow>
                  (LastEvaluatedKey d = None \<longrightarrow>
                     findAll_next E (Suspended p data) w2 = (Inr Done, Completed, w2))
                \<and> (\<forall>key. LastEvaluatedKey d = Some key \<longrightarrow>
                     requests (snd (snd (findAll_next E (Suspended p data) w2)))
                       = requests w2 @ [(ddbDocClient w2,
                                         ScanCommand (p\<lparr>ExclusiveStartKey := Some key\<rparr>))]
                   \<and> (fst (findAll_next E (Suspended p data) w2) = Inr Done \<longrightarrow>
                        (\<exists>e. console (snd (snd (findAll_next E (Suspended p data) w2)))
                               = console w2 @ [e])))"
      by (simp add: Let_def scan_page_requests scan_page_Done_logged)
    from y cont show "\<exists>p data w1. send E (ScanCommand p) w0 = (Inr data, w1)
            \<and> decode_page E data = Inr b
            \<and> snd (findAll_next E g w0) = (Suspended p data, w1)
            \<and> (\<forall>d w2. data = Some d \<longrightarrow>
                  (LastEvaluatedKey d = None \<longrightarrow>
                     findAll_next E (Suspended p data) w2 = (Inr Done, Completed, w2))
                \<and> (\<forall>key. LastEvaluatedKey d = Some key \<longrightarrow>
                     requests (snd (snd (findAll_next E (Suspended p data) w2)))
                       = requests w2 @ [(ddbDocClient w2,
                                         ScanCommand (p\<lparr>ExclusiveStartKey := Some key\<rparr>))]
                   \<and> (fst (findAll_next E (Suspended p data) w2) = Inr Done \<longrightarrow>
                        (\<exists>e. console (snd (snd (findAll_next E (Suspended p data) w2)))
                               = console w2 @ [e]))))"
      by blast
  qed
qed

theorem findAll_pages_witness:
  "fst (nexts 3 (example_env [Inr (Some first_page), Inr (Some last_page)])
          (findAll ''t'' (Some 1)) example_world)
     = [Inr (Yield [JObj [(''id'', JStr ''1''), (''age'', JNum 30)]]),
        Inr (Yield [JObj [(''id'', JStr ''2''), (''age'', JNum 41)]]),
        Inr Done]
   \<and> Inr (Yield [JObj [(''id'', JStr ''2''), (''age'', JNum 41)]])
       \<in> set (fst (nexts 3 (example_env [Inr (Some first_page), Inr (Some last_page)])
                      (findAll ''t'' (Some 1)) example_world))
   \<and> length [JObj [(''id'', JStr ''2''), (''age'', JNum 41 :: int jsval)]] \<le> 1"
proof -
  let ?E = "example_env [Inr (Some first_page), Inr (Some last_page)]"
  have honours: "\<forall>s c p d items. fst (store ?E s c (ScanCommand p)) = Inr (Some d)
           \<and> Items d = Some items
           \<and> Limit p = Some (case Some 1 of None \<Rightarrow> 10 | Some l \<Rightarrow> l) \<longrightarrow> length items \<le> 1"
  proof (intro allI impI)
    fix s c p d items
    assume a: "fst (store ?E s c (ScanCommand p)) = Inr (Some d) \<and> Items d = Some items
           \<and> Limit p = Some (case Some 1 of None \<Rightarrow> 10 | Some l \<Rightarrow> l)"
    then have "s = 0 \<or> s = 1"
      by (auto simp add: example_env_def paged_store_def split: if_splits)
    with a show "length items \<le> 1"
      by (auto simp add: example_env_def paged_store_def first_page_def last_page_def)
  qed
  have run: "fst (nexts 3 ?E (findAll ''t'' (Some 1)) example_world)
     = [Inr (Yield [JObj [(''id'', JStr ''1''), (''age'', JNum 30)]]),
        Inr (Yield [JObj [(''id'', JStr ''2''), (''age'', JNum 41)]]),
        Inr Done]"
    by (simp add: numeral_3_eq_3 findAll_def Let_def scan_page_def send_def example_env_def
          paged_store_def example_world_def module_init_def lift_sdk_def decode_page_def
          first_page_def last_page_def table_params_def attr_S_def attr_N_def parse_int_def
          digit_value_def)
  note t = findAll_pages[of 3 ?E "''t''" "Some 1" example_world 1, THEN conjunct2,
             THEN conjunct1, THEN mp, OF honours]
  have mem: "Inr (Yield [JObj [(''id'', JStr ''2''), (''age'', JNum 41)]])
               \<in> set (fst (nexts 3 ?E (findAll ''t'' (Some 1)) example_world))"
    unfolding run by simp
  from t mem have "length [JObj [(''id'', JStr ''2''), (''age'', JNum 41 :: int jsval)]] \<le> 1"
    by blast
  with run mem show ?thesis by blast
qed


end
